theory Spec2Isabelle
  imports Main "HOL-Library.Word"
begin

section \<open>Errors of the tenant-routing wrapper\<close>

text \<open>
  Every \<^verbatim>\<open>fmt.Errorf\<close> site of the repository is one constructor; a \<^verbatim>\<open>%w\<close> verb keeps the
  wrapped cause as an argument, a \<^verbatim>\<open>%s\<close>/\<^verbatim>\<open>%q\<close> verb keeps the formatted string.
  \<open>External\<close> is an error value produced by a collaborator outside the repository (the
  JSON decoder, the chained plugin, client-go, go-iptables); \<open>ApiNotFound\<close> is the
  client-go status error for which \<^verbatim>\<open>errors.IsNotFound\<close> holds.
\<close>

datatype error =
    External string
  | ApiNotFound string
  \<comment> \<open>main: parseCNIArgs\<close>
  | ArgsEmpty
  | PodNameNotFound
  | PodNamespaceNotFound
  \<comment> \<open>main: cmdAdd, cmdCheck\<close>
  | FailedParseConfig error
  | FailedParseArgs error
  | DelegationFailed error
  | FailedExtractPodIP error
  | DelegateCheckFailed error
  | ConfigDrift string string string string
  \<comment> \<open>pkg/config\<close>
  | ConfigUnmarshal error
  | DelegateRequired
  | KubeconfigRequired
  | KubeconfigNotAbsolute string
  | KubeconfigDotDot string
  \<comment> \<open>pkg/delegate\<close>
  | DelegateConfigParse error
  | DelegateMissingType
  | DelegateMarshal error
  | CniPathNotSet
  | DelegatePluginFailed string error
  | DelegatePluginDelFailed string error
  | DelegatePluginCheckFailed string error
  \<comment> \<open>pkg/result\<close>
  | ResultNil
  | UnsupportedResultType string
  | NoIPAddresses
  | NoIPv4Addresses
  \<comment> \<open>pkg/iptables\<close>
  | IptInitFailed error
  | PodIPEmpty
  | InvalidIPFormat string
  | InvalidFwmark string
  | RuleCheckFailed string error
  | AddRuleFailed string string error
  | DeleteRuleFailed string string error
  \<comment> \<open>pkg/k8s\<close>
  | PodNotFound string string error
  | GetPodFailed string string error
  | InvalidPodFwmark error
  | NamespaceNotFound string error
  | GetNamespaceFailed string error
  | InvalidNamespaceFwmark error
  | FwmarkNotAllowed string

text \<open>
  A Go call either returns or panics (a nil-pointer dereference); the panic unwinds
  every caller of this program, none of which recovers.
\<close>

datatype 'a outcome = Return 'a | Panic

section \<open>Result Extractor (package result)\<close>

type_synonym byte = "8 word"

text \<open>\<^verbatim>\<open>net.IP\<close> is a byte slice; \<open>None\<close> is the nil slice the source tests for.\<close>

type_synonym IP = "byte list option"

record IPNet =
  IP :: IP
  Mask :: "byte list"

text \<open>
  \<^verbatim>\<open>types100.IPConfig\<close> and \<^verbatim>\<open>types040.IPConfig\<close>: the extractor reads \<^verbatim>\<open>Address.IP\<close> only,
  so one record serves both wire formats.
\<close>

record IPConfig =
  Address :: IPNet
  Gateway :: IP

text \<open>
  \<^verbatim>\<open>types.Result\<close> is an interface: the two shapes the extractor knows, each with its
  \<^verbatim>\<open>CNIVersion\<close> and its \<^verbatim>\<open>IPs []*IPConfig\<close> (a \<open>None\<close> entry is a nil pointer), and any other
  implementation, named by its Go type. The nil interface is \<open>None :: Result option\<close>.
\<close>

datatype Result =
    Result100 string "IPConfig option list"
  | Result040 string "IPConfig option list"
  | ResultOther string

definition isZeros :: "byte list \<Rightarrow> bool" where
  "isZeros p = list_all (\<lambda>b. b = 0) p"

text \<open>\<^verbatim>\<open>net.IP.To4\<close>: a 4-byte address, or the last four bytes of an IPv4-mapped 16-byte one.\<close>

definition To4 :: "byte list \<Rightarrow> byte list option" where
  "To4 ip =
     (if length ip = 4 then Some ip
      else if length ip = 16 \<and> isZeros (take 10 ip) \<and> ip ! 10 = 0xff \<and> ip ! 11 = 0xff
        then Some (drop 12 ip)
      else None)"

definition digit_char :: "nat \<Rightarrow> char" where
  "digit_char d = ''0123456789'' ! d"

fun uitoa :: "nat \<Rightarrow> string" where
  "uitoa n = (if n < 10 then [digit_char n] else uitoa (n div 10) @ [digit_char (n mod 10)])"

declare uitoa.simps [simp del]

fun join_dots :: "string list \<Rightarrow> string" where
  "join_dots [] = []"
| "join_dots [s] = s"
| "join_dots (s # t # ss) = s @ ''.'' @ join_dots (t # ss)"

text \<open>
  \<^verbatim>\<open>net.IP.String\<close> on an address whose \<^verbatim>\<open>To4()\<close> is non-nil prints the four bytes of
  \<^verbatim>\<open>To4()\<close> in dotted decimal; \<open>ipv4_String\<close> takes those four bytes.
\<close>

definition ipv4_String :: "byte list \<Rightarrow> string" where
  "ipv4_String p4 = join_dots (map (\<lambda>b. uitoa (unat b)) p4)"

text \<open>
  The \<^verbatim>\<open>for _, ipConfig := range result.IPs\<close> loop shared by both extractors:
  \<^verbatim>\<open>ipConfig.Address.IP\<close> dereferences the entry (a nil entry panics), a nil IP is skipped,
  the first entry with \<^verbatim>\<open>To4() != nil\<close> is returned as a string.
\<close>

fun scanIPs :: "IPConfig option list \<Rightarrow> (error + string) outcome" where
  "scanIPs [] = Return (Inl NoIPv4Addresses)"
| "scanIPs (None # rest) = Panic"
| "scanIPs (Some ipConfig # rest) =
     (case IP (Address ipConfig) of
        None \<Rightarrow> scanIPs rest
      | Some ip \<Rightarrow>
          (case To4 ip of
             Some p4 \<Rightarrow> Return (Inr (ipv4_String p4))
           | None \<Rightarrow> scanIPs rest))"

definition extractIPv4FromResult100 :: "IPConfig option list \<Rightarrow> (error + string) outcome" where
  "extractIPv4FromResult100 ips =
     (if length ips = 0 then Return (Inl NoIPAddresses) else scanIPs ips)"

definition extractIPv4FromResult040 :: "IPConfig option list \<Rightarrow> (error + string) outcome" where
  "extractIPv4FromResult040 ips =
     (if length ips = 0 then Return (Inl NoIPAddresses) else scanIPs ips)"

fun ExtractPodIP :: "Result option \<Rightarrow> (error + string) outcome" where
  "ExtractPodIP None = Return (Inl ResultNil)"
| "ExtractPodIP (Some (Result100 v ips)) = extractIPv4FromResult100 ips"
| "ExtractPodIP (Some (Result040 v ips)) = extractIPv4FromResult040 ips"
| "ExtractPodIP (Some (ResultOther ty)) = Return (Inl (UnsupportedResultType ty))"

text \<open>\<^verbatim>\<open>IsIPv4\<close>: the helper of the package, on a possibly nil address.\<close>

definition IsIPv4 :: "IP \<Rightarrow> bool" where
  "IsIPv4 ip = (case ip of None \<Rightarrow> False | Some b \<Rightarrow> To4 b \<noteq> None)"

section \<open>Go library functions on strings\<close>

text \<open>
  Go strings are byte sequences (UTF-8); so is \<open>string\<close>. \<^verbatim>\<open>strings.TrimSpace\<close> removes leading
  and trailing runes for which \<^verbatim>\<open>unicode.IsSpace\<close> holds: the six ASCII ones, and the runes
  U+0085, U+00A0, U+1680, U+2000..U+200A, U+2028, U+2029, U+202F, U+205F, U+3000, listed
  here by their UTF-8 encodings.
\<close>

definition asciiSpace :: "char \<Rightarrow> bool" where
  "asciiSpace c = (c \<in> set [CHR 0x09, CHR 0x0A, CHR 0x0B, CHR 0x0C, CHR 0x0D, CHR 0x20])"

definition unicodeSpaces :: "string list" where
  "unicodeSpaces =
     [[CHR 0xC2, CHR 0x85], [CHR 0xC2, CHR 0xA0], [CHR 0xE1, CHR 0x9A, CHR 0x80]]
     @ map (\<lambda>b. [CHR 0xE2, CHR 0x80, b])
         [CHR 0x80, CHR 0x81, CHR 0x82, CHR 0x83, CHR 0x84, CHR 0x85, CHR 0x86, CHR 0x87,
          CHR 0x88, CHR 0x89, CHR 0x8A, CHR 0xA8, CHR 0xA9, CHR 0xAF]
     @ [[CHR 0xE2, CHR 0x81, CHR 0x9F], [CHR 0xE3, CHR 0x80, CHR 0x80]]"

text \<open>The number of bytes of the space rune at the head of \<open>s\<close>, 0 when there is none.\<close>

definition spaceLen :: "string list \<Rightarrow> string \<Rightarrow> nat" where
  "spaceLen encs s =
     (case s of
        [] \<Rightarrow> 0
      | c # _ \<Rightarrow>
          if asciiSpace c then 1
          else (case find (\<lambda>e. take (length e) s = e) encs of
                  Some e \<Rightarrow> length e
                | None \<Rightarrow> 0))"

function trimLeading :: "string list \<Rightarrow> string \<Rightarrow> string" where
  "trimLeading encs s =
     (if spaceLen encs s = 0 then s else trimLeading encs (drop (spaceLen encs s) s))"
  by pat_completeness auto
termination
  by (relation "measure (\<lambda>(encs, s). length s)") (auto simp: spaceLen_def split: list.splits)

declare trimLeading.simps [simp del]

text \<open>
  Trailing runes are decoded backwards from the last byte; a space rune is found there
  exactly when the string ends with its encoding, so the right trim is the left trim of
  the reversed string against the reversed encodings.
\<close>

definition TrimSpace :: "string \<Rightarrow> string" where
  "TrimSpace s = rev (trimLeading (map rev unicodeSpaces) (rev (trimLeading unicodeSpaces s)))"

text \<open>
  \<^verbatim>\<open>strings.ToLower\<close> on the bytes \<open>A\<close>..\<open>Z\<close>. Bytes of a non-ASCII rune are kept: the only use
  is a comparison with the ASCII constants \<^verbatim>\<open>0x10\<close> and \<^verbatim>\<open>0x20\<close>, and no non-ASCII rune has a
  lower-case form among their characters, so the comparison is decided as in Go.
\<close>

definition lowerByte :: "char \<Rightarrow> char" where
  "lowerByte c =
     (if (65::nat) \<le> of_char c \<and> of_char c \<le> (90::nat) then char_of (of_char c + (32::nat)) else c)"

definition ToLower :: "string \<Rightarrow> string" where
  "ToLower s = map lowerByte s"

text \<open>\<^verbatim>\<open>strings.Contains\<close>, \<^verbatim>\<open>strings.HasPrefix\<close>.\<close>

fun Contains :: "string \<Rightarrow> string \<Rightarrow> bool" where
  "Contains [] substr = (substr = [])"
| "Contains (c # s) substr = (take (length substr) (c # s) = substr \<or> Contains s substr)"

definition HasPrefix :: "string \<Rightarrow> string \<Rightarrow> bool" where
  "HasPrefix s pre = (take (length pre) s = pre)"

text \<open>\<^verbatim>\<open>strings.Split(s, sep)\<close> for a one-byte separator: one field more than separators.\<close>

fun Split :: "string \<Rightarrow> char \<Rightarrow> string list" where
  "Split [] sep = [[]]"
| "Split (c # s) sep =
     (if c = sep then [] # Split s sep
      else (case Split s sep of f # fs \<Rightarrow> (c # f) # fs | [] \<Rightarrow> [[c]]))"

text \<open>\<^verbatim>\<open>strings.SplitN(s, sep, 2)\<close>: cut at the first separator only.\<close>

definition SplitN2 :: "string \<Rightarrow> char \<Rightarrow> string list" where
  "SplitN2 s sep =
     (if sep \<in> set s
      then [takeWhile (\<lambda>c. c \<noteq> sep) s, tl (dropWhile (\<lambda>c. c \<noteq> sep) s)]
      else [s])"

text \<open>\<^verbatim>\<open>filepath.IsAbs\<close> on Linux, the only platform of a CNI plugin.\<close>

definition IsAbs :: "string \<Rightarrow> bool" where
  "IsAbs path = HasPrefix path ''/''"

section \<open>The host and the collaborators\<close>

type_synonym rulespec = "string list"

text \<open>
  What an invocation does to the outside is recorded in order: executions of the chained
  plugin, metadata-store requests, calls of the rule tool, log lines (format string,
  string arguments, error argument) and the result printed on stdout.
\<close>

datatype event =
    EvInvoke string string string
  | EvNewClient string
  | EvGetPod string string
  | EvGetNamespace string
  | EvIptNew
  | EvIptExists string string rulespec
  | EvIptAppend string string rulespec
  | EvIptDelete string string rulespec
  | EvLog string "string list" "error option"
  | EvPrintResult "Result option" string

text \<open>
  The host state shared by all invocations: the rules of chain PREROUTING in table
  mangle, in order, and the record of effects.
\<close>

record world =
  table :: "rulespec list"
  trace :: "event list"

definition emit :: "event \<Rightarrow> world \<Rightarrow> world" where
  "emit e w = w\<lparr>trace := trace w @ [e]\<rparr>"

definition logPrintf :: "string \<Rightarrow> string list \<Rightarrow> error option \<Rightarrow> world \<Rightarrow> world" where
  "logPrintf format strs err w = emit (EvLog format strs err) w"

datatype json =
    JNull
  | JBool bool
  | JNumber string
  | JString string
  | JArray "json list"
  | JObject "(string \<times> json) list"

text \<open>\<^verbatim>\<open>kubernetes.Interface\<close>, as far as it is used: the two Get requests, returning the
  object's annotations.\<close>

record clientset =
  Pods_Get :: "string \<Rightarrow> string \<Rightarrow> error + (string \<rightharpoonup> string)"
  Namespaces_Get :: "string \<Rightarrow> error + (string \<rightharpoonup> string)"

text \<open>
  \<^verbatim>\<open>PluginConf\<close> embeds \<^verbatim>\<open>types.NetConf\<close>. The previous result is there twice: \<^verbatim>\<open>RawPrevResult\<close>,
  the JSON object under the key \<^verbatim>\<open>prevResult\<close>, and \<^verbatim>\<open>PrevResult\<close>, the parsed \<^verbatim>\<open>types.Result\<close>,
  tagged \<^verbatim>\<open>json:"-"\<close>.
\<close>

record PluginConf =
  CNIVersion :: string
  Name :: string
  Kubeconfig :: string
  AnnotationKey :: string
  Delegate :: string
  RawPrevResult :: "json option"
  PrevResult :: "Result option"

text \<open>
  What \<^verbatim>\<open>json.Unmarshal\<close> can store into a \<^verbatim>\<open>PluginConf\<close>: the fields that have a JSON name.
  A field tagged \<^verbatim>\<open>json:"-"\<close> is never written by the decoder.
\<close>

record ConfJSON =
  json_cniVersion :: string
  json_name :: string
  json_kubeconfig :: string
  json_annotationKey :: string
  json_delegate :: string
  json_prevResult :: "json option"

text \<open>
  The behaviour of everything outside the repository, one field per library call:
  the JSON codec, the process environment, the chained plugin binary, client-go,
  \<^verbatim>\<open>net.ParseIP\<close>, go-iptables (whether a call of the tool fails; what it reads and writes
  is \<open>table\<close>), the order in which Go ranges over the allow-list map, and
  \<^verbatim>\<open>types.PrintResult\<close>.
\<close>

record env =
  json_Unmarshal_conf :: "string \<Rightarrow> error + ConfJSON"
  json_Unmarshal_map :: "string \<Rightarrow> error + (string \<rightharpoonup> json)"
  json_Marshal_map :: "(string \<rightharpoonup> json) \<Rightarrow> error + string"
  os_Getenv :: "string \<Rightarrow> string"
  invoke_DelegateAdd :: "string \<Rightarrow> string \<Rightarrow> error + Result option"
  invoke_DelegateDel :: "string \<Rightarrow> string \<Rightarrow> error option"
  invoke_DelegateCheck :: "string \<Rightarrow> string \<Rightarrow> error option"
  k8s_NewClient :: "string \<Rightarrow> error + clientset"
  net_ParseIP :: "string \<Rightarrow> byte list option"
  iptables_New :: "error option"
  ipt_Exists_err :: "rulespec \<Rightarrow> error option"
  ipt_Append_err :: "rulespec \<Rightarrow> error option"
  ipt_Delete_err :: "rulespec \<Rightarrow> error option"
  range_ValidFwmarkValues :: "string list"
  types_PrintResult :: "Result option \<Rightarrow> string \<Rightarrow> error option"

section \<open>Mark-Rule Manager (package iptables)\<close>

definition FwmarkTenantA :: string where
  "FwmarkTenantA = ''0x10''"

definition FwmarkTenantB :: string where
  "FwmarkTenantB = ''0x20''"

definition tableNameMangle :: string where
  "tableNameMangle = ''mangle''"

definition chainPrerouting :: string where
  "chainPrerouting = ''PREROUTING''"

text \<open>\<^verbatim>\<open>NewManager\<close>: \<^verbatim>\<open>iptables.New()\<close> looks the binary up and runs it for its version.\<close>

definition NewManager :: "env \<Rightarrow> world \<Rightarrow> world \<times> error option" where
  "NewManager env w =
     (let w1 = emit EvIptNew w in
      case iptables_New env of
        Some err \<Rightarrow> (w1, Some (IptInitFailed err))
      | None \<Rightarrow> (w1, None))"

text \<open>
  The three operations of go-iptables on the fixed chain. \<^verbatim>\<open>Exists\<close> reads the chain,
  \<^verbatim>\<open>Append\<close> adds the rule at its end, \<^verbatim>\<open>Delete\<close> removes the first matching rule and
  fails when there is none, as \<^verbatim>\<open>iptables -D\<close> does.
\<close>

definition ipt_Exists :: "env \<Rightarrow> world \<Rightarrow> rulespec \<Rightarrow> world \<times> (error + bool)" where
  "ipt_Exists env w rulespec =
     (let w1 = emit (EvIptExists tableNameMangle chainPrerouting rulespec) w in
      case ipt_Exists_err env rulespec of
        Some err \<Rightarrow> (w1, Inl err)
      | None \<Rightarrow> (w1, Inr (rulespec \<in> set (table w))))"

definition ipt_Append :: "env \<Rightarrow> world \<Rightarrow> rulespec \<Rightarrow> world \<times> error option" where
  "ipt_Append env w rulespec =
     (let w1 = emit (EvIptAppend tableNameMangle chainPrerouting rulespec) w in
      case ipt_Append_err env rulespec of
        Some err \<Rightarrow> (w1, Some err)
      | None \<Rightarrow> (w1\<lparr>table := table w @ [rulespec]\<rparr>, None))"

definition ipt_Delete :: "env \<Rightarrow> world \<Rightarrow> rulespec \<Rightarrow> world \<times> error option" where
  "ipt_Delete env w rulespec =
     (let w1 = emit (EvIptDelete tableNameMangle chainPrerouting rulespec) w in
      case ipt_Delete_err env rulespec of
        Some err \<Rightarrow> (w1, Some err)
      | None \<Rightarrow>
          if rulespec \<in> set (table w) then (w1\<lparr>table := remove1 rulespec (table w)\<rparr>, None)
          else (w1, Some (External ''iptables: Bad rule (does a matching rule exist in that chain?)'')))"

definition iptables_validateFwmark :: "string \<Rightarrow> error option" where
  "iptables_validateFwmark fwmark =
     (let normalized = ToLower (TrimSpace fwmark) in
      if normalized \<noteq> FwmarkTenantA \<and> normalized \<noteq> FwmarkTenantB then Some (InvalidFwmark fwmark)
      else None)"

definition mark_rulespec :: "string \<Rightarrow> string \<Rightarrow> rulespec" where
  "mark_rulespec podIP fwmark = [''-s'', podIP, ''-j'', ''MARK'', ''--set-mark'', fwmark]"

definition AddMarkRule :: "env \<Rightarrow> world \<Rightarrow> string \<Rightarrow> string \<Rightarrow> world \<times> error option" where
  "AddMarkRule env w podIP fwmark =
     (if TrimSpace podIP = [] then (w, Some PodIPEmpty)
      else if net_ParseIP env podIP = None then (w, Some (InvalidIPFormat podIP))
      else case iptables_validateFwmark fwmark of
        Some err \<Rightarrow> (w, Some err)
      | None \<Rightarrow>
          (case NewManager env w of
             (w1, Some err) \<Rightarrow> (w1, Some err)
           | (w1, None) \<Rightarrow>
               (let rulespec = mark_rulespec podIP fwmark in
                case ipt_Exists env w1 rulespec of
                  (w2, Inl err) \<Rightarrow> (w2, Some (RuleCheckFailed podIP err))
                | (w2, Inr exists) \<Rightarrow>
                    if exists then (w2, None)
                    else (case ipt_Append env w2 rulespec of
                            (w3, Some err) \<Rightarrow> (w3, Some (AddRuleFailed podIP fwmark err))
                          | (w3, None) \<Rightarrow> (w3, None)))))"

definition RuleExists :: "env \<Rightarrow> world \<Rightarrow> string \<Rightarrow> string \<Rightarrow> world \<times> bool \<times> error option" where
  "RuleExists env w podIP fwmark =
     (if TrimSpace podIP = [] then (w, False, Some PodIPEmpty)
      else if net_ParseIP env podIP = None then (w, False, Some (InvalidIPFormat podIP))
      else case iptables_validateFwmark fwmark of
        Some err \<Rightarrow> (w, False, Some err)
      | None \<Rightarrow>
          (case NewManager env w of
             (w1, Some err) \<Rightarrow> (w1, False, Some err)
           | (w1, None) \<Rightarrow>
               (let rulespec = mark_rulespec podIP fwmark in
                case ipt_Exists env w1 rulespec of
                  (w2, Inl err) \<Rightarrow> (w2, False, Some (RuleCheckFailed podIP err))
                | (w2, Inr exists) \<Rightarrow> (w2, exists, None))))"

definition DeleteMarkRule :: "env \<Rightarrow> world \<Rightarrow> string \<Rightarrow> string \<Rightarrow> world \<times> error option" where
  "DeleteMarkRule env w podIP fwmark =
     (if TrimSpace podIP = [] then (w, Some PodIPEmpty)
      else if net_ParseIP env podIP = None then (w, Some (InvalidIPFormat podIP))
      else case iptables_validateFwmark fwmark of
        Some err \<Rightarrow> (w, Some err)
      | None \<Rightarrow>
          (case NewManager env w of
             (w1, Some err) \<Rightarrow> (w1, Some err)
           | (w1, None) \<Rightarrow>
               (let rulespec = mark_rulespec podIP fwmark in
                case ipt_Exists env w1 rulespec of
                  (w2, Inl err) \<Rightarrow> (w2, Some (RuleCheckFailed podIP err))
                | (w2, Inr exists) \<Rightarrow>
                    if \<not> exists then (w2, None)
                    else (case ipt_Delete env w2 rulespec of
                            (w3, Some err) \<Rightarrow> (w3, Some (DeleteRuleFailed podIP fwmark err))
                          | (w3, None) \<Rightarrow> (w3, None)))))"

section \<open>Annotation Resolver (package k8s)\<close>

definition ValidFwmarkValues :: "string \<rightharpoonup> bool" where
  "ValidFwmarkValues = [''0x10'' \<mapsto> True, ''0x20'' \<mapsto> True]"

text \<open>A Go map read of a missing key gives the zero value, here \<open>False\<close>.\<close>

definition k8s_validateFwmark :: "string \<Rightarrow> error option" where
  "k8s_validateFwmark fwmark =
     (if \<not> (case ValidFwmarkValues fwmark of Some b \<Rightarrow> b | None \<Rightarrow> False)
      then Some (FwmarkNotAllowed fwmark)
      else None)"

definition IsNotFound :: "error \<Rightarrow> bool" where
  "IsNotFound err = (case err of ApiNotFound _ \<Rightarrow> True | _ \<Rightarrow> False)"

text \<open>
  \<^verbatim>\<open>GetFwmark\<close>. Both requests run under one 5-second context; a request cut off by it
  returns an error like any other failed request.
\<close>

definition GetFwmark ::
  "clientset \<Rightarrow> world \<Rightarrow> string \<Rightarrow> string \<Rightarrow> string \<Rightarrow> world \<times> (error + string)" where
  "GetFwmark cs w podName podNamespace annotationKey =
     (let w1 = emit (EvGetPod podNamespace podName) w in
      case Pods_Get cs podNamespace podName of
        Inl err \<Rightarrow>
          if IsNotFound err then (w1, Inl (PodNotFound podNamespace podName err))
          else (w1, Inl (GetPodFailed podNamespace podName err))
      | Inr podAnnotations \<Rightarrow>
          (case podAnnotations annotationKey of
             Some fwmark \<Rightarrow>
               (case k8s_validateFwmark fwmark of
                  Some err \<Rightarrow> (w1, Inl (InvalidPodFwmark err))
                | None \<Rightarrow> (w1, Inr fwmark))
           | None \<Rightarrow>
               (let w2 = emit (EvGetNamespace podNamespace) w1 in
                case Namespaces_Get cs podNamespace of
                  Inl err \<Rightarrow>
                    if IsNotFound err then (w2, Inl (NamespaceNotFound podNamespace err))
                    else (w2, Inl (GetNamespaceFailed podNamespace err))
                | Inr nsAnnotations \<Rightarrow>
                    (case nsAnnotations annotationKey of
                       Some fwmark \<Rightarrow>
                         (case k8s_validateFwmark fwmark of
                            Some err \<Rightarrow> (w2, Inl (InvalidNamespaceFwmark err))
                          | None \<Rightarrow> (w2, Inr fwmark))
                     | None \<Rightarrow> (w2, Inr [])))))"

text \<open>
  \<^verbatim>\<open>NewClient\<close> consists of calls into the file system and client-go only; the model keeps
  its outcome and records the attempt.
\<close>

definition NewClient :: "env \<Rightarrow> world \<Rightarrow> string \<Rightarrow> world \<times> (error + clientset)" where
  "NewClient env w kubeconfigPath =
     (emit (EvNewClient kubeconfigPath) w, k8s_NewClient env kubeconfigPath)"

section \<open>Configuration (package config)\<close>

definition DefaultAnnotationKey :: string where
  "DefaultAnnotationKey = ''tenant.routing/fwmark''"

text \<open>
  \<^verbatim>\<open>ParseConfig\<close> decodes into a fresh \<^verbatim>\<open>&PluginConf{}\<close>: the named fields get the decoded
  values and \<^verbatim>\<open>PrevResult\<close> stays nil, the function making no call of
  \<^verbatim>\<open>version.ParsePrevResult\<close>.
\<close>

definition ParseConfig :: "env \<Rightarrow> string \<Rightarrow> error + PluginConf" where
  "ParseConfig env stdin =
     (case json_Unmarshal_conf env stdin of
        Inl err \<Rightarrow> Inl (ConfigUnmarshal err)
      | Inr decoded \<Rightarrow>
          let conf = \<lparr>CNIVersion = json_cniVersion decoded, Name = json_name decoded,
                      Kubeconfig = json_kubeconfig decoded,
                      AnnotationKey = json_annotationKey decoded,
                      Delegate = json_delegate decoded,
                      RawPrevResult = json_prevResult decoded, PrevResult = None\<rparr> in
          if length (Delegate conf) = 0 then Inl DelegateRequired
          else if Kubeconfig conf = [] then Inl KubeconfigRequired
          else if \<not> IsAbs (Kubeconfig conf) then Inl (KubeconfigNotAbsolute (Kubeconfig conf))
          else if Contains (Kubeconfig conf) ''..'' then Inl (KubeconfigDotDot (Kubeconfig conf))
          else if AnnotationKey conf = [] then Inr (conf\<lparr>AnnotationKey := DefaultAnnotationKey\<rparr>)
          else Inr conf)"

section \<open>Delegation Client (package delegate)\<close>

text \<open>\<^verbatim>\<open>delegateConf["type"].(string)\<close>: the value and whether the assertion held.\<close>

definition type_field :: "(string \<rightharpoonup> json) \<Rightarrow> string \<times> bool" where
  "type_field delegateConf =
     (case delegateConf ''type'' of Some (JString s) \<Rightarrow> (s, True) | _ \<Rightarrow> ([], False))"

definition DelegateAdd ::
  "env \<Rightarrow> world \<Rightarrow> string \<Rightarrow> string \<Rightarrow> string \<Rightarrow> world \<times> (error + Result option)" where
  "DelegateAdd env w delegateConfig networkName stdin =
     (case json_Unmarshal_map env delegateConfig of
        Inl err \<Rightarrow> (w, Inl (DelegateConfigParse err))
      | Inr delegateConf \<Rightarrow>
          (case type_field delegateConf of (pluginType, ok) \<Rightarrow>
             if \<not> ok \<or> pluginType = [] then (w, Inl DelegateMissingType)
             else (case json_Marshal_map env (delegateConf(''name'' \<mapsto> JString networkName)) of
                 Inl err \<Rightarrow> (w, Inl (DelegateMarshal err))
               | Inr delegateConfigWithName \<Rightarrow>
                   if os_Getenv env ''CNI_PATH'' = [] then (w, Inl CniPathNotSet)
                   else (let w1 = emit (EvInvoke ''ADD'' pluginType delegateConfigWithName) w in
                         case invoke_DelegateAdd env pluginType delegateConfigWithName of
                           Inl err \<Rightarrow> (w1, Inl (DelegatePluginFailed pluginType err))
                         | Inr result \<Rightarrow> (w1, Inr result)))))"

definition DelegateDel ::
  "env \<Rightarrow> world \<Rightarrow> string \<Rightarrow> string \<Rightarrow> string \<Rightarrow> world \<times> error option" where
  "DelegateDel env w delegateConfig networkName stdin =
     (case json_Unmarshal_map env delegateConfig of
        Inl err \<Rightarrow> (w, Some (DelegateConfigParse err))
      | Inr delegateConf \<Rightarrow>
          (case type_field delegateConf of (pluginType, ok) \<Rightarrow>
             if \<not> ok \<or> pluginType = [] then (w, Some DelegateMissingType)
             else (case json_Marshal_map env (delegateConf(''name'' \<mapsto> JString networkName)) of
                 Inl err \<Rightarrow> (w, Some (DelegateMarshal err))
               | Inr delegateConfigWithName \<Rightarrow>
                   if os_Getenv env ''CNI_PATH'' = [] then (w, Some CniPathNotSet)
                   else (let w1 = emit (EvInvoke ''DEL'' pluginType delegateConfigWithName) w in
                         case invoke_DelegateDel env pluginType delegateConfigWithName of
                           Some err \<Rightarrow> (w1, Some (DelegatePluginDelFailed pluginType err))
                         | None \<Rightarrow> (w1, None)))))"

definition DelegateCheck ::
  "env \<Rightarrow> world \<Rightarrow> string \<Rightarrow> string \<Rightarrow> string \<Rightarrow> world \<times> error option" where
  "DelegateCheck env w delegateConfig networkName stdin =
     (case json_Unmarshal_map env delegateConfig of
        Inl err \<Rightarrow> (w, Some (DelegateConfigParse err))
      | Inr delegateConf \<Rightarrow>
          (case type_field delegateConf of (pluginType, ok) \<Rightarrow>
             if \<not> ok \<or> pluginType = [] then (w, Some DelegateMissingType)
             else (case json_Marshal_map env (delegateConf(''name'' \<mapsto> JString networkName)) of
                 Inl err \<Rightarrow> (w, Some (DelegateMarshal err))
               | Inr delegateConfigWithName \<Rightarrow>
                   if os_Getenv env ''CNI_PATH'' = [] then (w, Some CniPathNotSet)
                   else (let w1 = emit (EvInvoke ''CHECK'' pluginType delegateConfigWithName) w in
                         case invoke_DelegateCheck env pluginType delegateConfigWithName of
                           Some err \<Rightarrow> (w1, Some (DelegatePluginCheckFailed pluginType err))
                         | None \<Rightarrow> (w1, None)))))"

section \<open>Command Dispatcher (package main)\<close>

record CmdArgs =
  ContainerID :: string
  Netns :: string
  IfName :: string
  Args :: string
  Path :: string
  StdinData :: string

text \<open>The loop of \<^verbatim>\<open>parseCNIArgs\<close> over the pairs; a later pair overwrites an earlier one.\<close>

fun parsePairs :: "string list \<Rightarrow> string \<times> string \<Rightarrow> string \<times> string" where
  "parsePairs [] (podName, podNamespace) = (podName, podNamespace)"
| "parsePairs (pair # pairs) (podName, podNamespace) =
     (let kv = SplitN2 pair CHR ''='' in
      if length kv \<noteq> 2 then parsePairs pairs (podName, podNamespace)
      else if kv ! 0 = ''K8S_POD_NAME'' then parsePairs pairs (kv ! 1, podNamespace)
      else if kv ! 0 = ''K8S_POD_NAMESPACE'' then parsePairs pairs (podName, kv ! 1)
      else parsePairs pairs (podName, podNamespace))"

definition parseCNIArgs :: "string \<Rightarrow> error + string \<times> string" where
  "parseCNIArgs cniArgs =
     (if cniArgs = [] then Inl ArgsEmpty
      else (case parsePairs (Split cniArgs CHR '';'') ([], []) of (podName, podNamespace) \<Rightarrow>
        if podName = [] then Inl PodNameNotFound
        else if podNamespace = [] then Inl PodNamespaceNotFound
        else Inr (podName, podNamespace)))"

text \<open>\<^verbatim>\<open>return types.PrintResult(result, version)\<close>: the result goes to stdout, the error of
  printing is the handler's return value.\<close>

definition PrintResult ::
  "env \<Rightarrow> world \<Rightarrow> Result option \<Rightarrow> string \<Rightarrow> world \<times> error option outcome" where
  "PrintResult env w result version =
     (emit (EvPrintResult result version) w, Return (types_PrintResult env result version))"

definition cmdAdd :: "env \<Rightarrow> world \<Rightarrow> CmdArgs \<Rightarrow> world \<times> error option outcome" where
  "cmdAdd env w args =
     (case ParseConfig env (StdinData args) of
        Inl err \<Rightarrow> (w, Return (Some (FailedParseConfig err)))
      | Inr pluginConf \<Rightarrow>
     (case parseCNIArgs (Args args) of
        Inl err \<Rightarrow> (w, Return (Some (FailedParseArgs err)))
      | Inr (podName, podNamespace) \<Rightarrow>
     (case DelegateAdd env w (Delegate pluginConf) (Name pluginConf) (StdinData args) of
        (w1, Inl err) \<Rightarrow> (w1, Return (Some (DelegationFailed err)))
      | (w1, Inr delegateResult) \<Rightarrow>
     (case ExtractPodIP delegateResult of
        Panic \<Rightarrow> (w1, Panic)
      | Return (Inl err) \<Rightarrow> (w1, Return (Some (FailedExtractPodIP err)))
      | Return (Inr podIP) \<Rightarrow>
     (case NewClient env w1 (Kubeconfig pluginConf) of
        (w2, Inl err) \<Rightarrow>
          PrintResult env
            (logPrintf ''WARNING: failed to create K8s client, skipping fwmark setup: %v'' [] (Some err) w2)
            delegateResult (CNIVersion pluginConf)
      | (w2, Inr clientset) \<Rightarrow>
     (case GetFwmark clientset w2 podName podNamespace (AnnotationKey pluginConf) of
        (w3, Inl err) \<Rightarrow>
          PrintResult env
            (logPrintf ''WARNING: failed to get fwmark annotation for %s/%s: %v''
               [podNamespace, podName] (Some err) w3)
            delegateResult (CNIVersion pluginConf)
      | (w3, Inr fwmark) \<Rightarrow>
          (let w5 =
             (if fwmark \<noteq> [] then
                (case AddMarkRule env w3 podIP fwmark of
                   (w4, Some err) \<Rightarrow>
                     logPrintf ''WARNING: failed to add iptables rule for pod %s/%s (IP: %s, fwmark: %s): %v''
                       [podNamespace, podName, podIP, fwmark] (Some err) w4
                 | (w4, None) \<Rightarrow>
                     logPrintf ''INFO: added iptables MARK rule for pod %s/%s: -s %s -j MARK --set-mark %s''
                       [podNamespace, podName, podIP, fwmark] None w4)
              else w3)
           in PrintResult env w5 delegateResult (CNIVersion pluginConf))))))))"

text \<open>
  \<^verbatim>\<open>cleanupIptablesRules\<close> ranges over the keys of \<^verbatim>\<open>k8s.ValidFwmarkValues\<close>; Go fixes no
  order for a map range, the environment gives the one taken.
\<close>

fun cleanupLoop :: "env \<Rightarrow> world \<Rightarrow> string \<Rightarrow> string list \<Rightarrow> world" where
  "cleanupLoop env w podIP [] = w"
| "cleanupLoop env w podIP (fwmark # rest) =
     (case DeleteMarkRule env w podIP fwmark of
        (w1, Some err) \<Rightarrow>
          cleanupLoop env
            (logPrintf ''DEBUG: DeleteMarkRule(%s, %s) failed: %v'' [podIP, fwmark] (Some err) w1)
            podIP rest
      | (w1, None) \<Rightarrow> cleanupLoop env w1 podIP rest)"

definition cleanupIptablesRules :: "env \<Rightarrow> world \<Rightarrow> string \<Rightarrow> world" where
  "cleanupIptablesRules env w podIP = cleanupLoop env w podIP (range_ValidFwmarkValues env)"

definition cmdDel :: "env \<Rightarrow> world \<Rightarrow> CmdArgs \<Rightarrow> world \<times> error option outcome" where
  "cmdDel env w args =
     (case ParseConfig env (StdinData args) of
        Inl err \<Rightarrow>
          (logPrintf ''WARNING: failed to parse config in DEL: %v'' [] (Some err) w, Return None)
      | Inr pluginConf \<Rightarrow>
     (case (case parseCNIArgs (Args args) of
              Inl err \<Rightarrow>
                (logPrintf ''WARNING: failed to parse CNI_ARGS in DEL: %v'' [] (Some err) w, [], [])
            | Inr (podName, podNamespace) \<Rightarrow> (w, podName, podNamespace)) of
        (w1, podName, podNamespace) \<Rightarrow>
     (case (if PrevResult pluginConf \<noteq> None then
              (case ExtractPodIP (PrevResult pluginConf) of
                 Panic \<Rightarrow> Panic
               | Return (Inl err) \<Rightarrow>
                   Return (logPrintf ''WARNING: failed to extract pod IP from prevResult: %v''
                             [] (Some err) w1, [])
               | Return (Inr ip) \<Rightarrow> Return (w1, ip))
            else Return (w1, [])) of
        Panic \<Rightarrow> (w1, Panic)
      | Return (w2, podIP) \<Rightarrow>
     (let w4 =
        (case DelegateDel env w2 (Delegate pluginConf) (Name pluginConf) (StdinData args) of
           (w3, Some err) \<Rightarrow> logPrintf ''WARNING: delegate DEL failed: %v'' [] (Some err) w3
         | (w3, None) \<Rightarrow> w3)
      in
      if podIP \<noteq> [] \<and> podName \<noteq> [] \<and> podNamespace \<noteq> [] then
        (case NewClient env w4 (Kubeconfig pluginConf) of
           (w5, Inl err) \<Rightarrow>
             (logPrintf ''WARNING: failed to create K8s client for cleanup: %v'' [] (Some err) w5,
              Return None)
         | (w5, Inr clientset) \<Rightarrow>
        (case GetFwmark clientset w5 podName podNamespace (AnnotationKey pluginConf) of
           (w6, Inl err) \<Rightarrow>
             (cleanupIptablesRules env
                (logPrintf ''INFO: could not get fwmark for cleanup (pod may be deleted): %v''
                   [] (Some err) w6)
                podIP,
              Return None)
         | (w6, Inr fwmark) \<Rightarrow>
             if fwmark \<noteq> [] then
               (case DeleteMarkRule env w6 podIP fwmark of
                  (w7, Some err) \<Rightarrow>
                    (logPrintf ''WARNING: failed to delete iptables rule for pod %s/%s (IP: %s, fwmark: %s): %v''
                       [podNamespace, podName, podIP, fwmark] (Some err) w7,
                     Return None)
                | (w7, None) \<Rightarrow>
                    (logPrintf ''INFO: deleted iptables MARK rule for pod %s/%s: -s %s -j MARK --set-mark %s''
                       [podNamespace, podName, podIP, fwmark] None w7,
                     Return None))
             else (w6, Return None)))
      else if podIP \<noteq> [] then
        (cleanupIptablesRules env
           (logPrintf ''INFO: cleaning up any iptables rules for IP %s (pod info unavailable)''
              [podIP] None w4)
           podIP,
         Return None)
      else (w4, Return None)))))"

definition cmdCheck :: "env \<Rightarrow> world \<Rightarrow> CmdArgs \<Rightarrow> world \<times> error option outcome" where
  "cmdCheck env w args =
     (case ParseConfig env (StdinData args) of
        Inl err \<Rightarrow> (w, Return (Some (FailedParseConfig err)))
      | Inr pluginConf \<Rightarrow>
     (case DelegateCheck env w (Delegate pluginConf) (Name pluginConf) (StdinData args) of
        (w1, Some err) \<Rightarrow> (w1, Return (Some (DelegateCheckFailed err)))
      | (w1, None) \<Rightarrow>
     (case parseCNIArgs (Args args) of
        Inl err \<Rightarrow>
          (logPrintf ''WARNING: CHECK cannot verify iptables - failed to parse CNI_ARGS: %v''
             [] (Some err) w1,
           Return None)
      | Inr (podName, podNamespace) \<Rightarrow>
     (if PrevResult pluginConf \<noteq> None then
        (case ExtractPodIP (PrevResult pluginConf) of
           Panic \<Rightarrow> (w1, Panic)
         | Return (Inl err) \<Rightarrow>
             (logPrintf ''WARNING: CHECK cannot verify iptables - failed to extract pod IP: %v''
                [] (Some err) w1,
              Return None)
         | Return (Inr podIP) \<Rightarrow>
        (case NewClient env w1 (Kubeconfig pluginConf) of
           (w2, Inl err) \<Rightarrow>
             (logPrintf ''WARNING: CHECK cannot verify iptables - failed to create K8s client: %v''
                [] (Some err) w2,
              Return None)
         | (w2, Inr clientset) \<Rightarrow>
        (case GetFwmark clientset w2 podName podNamespace (AnnotationKey pluginConf) of
           (w3, Inl err) \<Rightarrow>
             (logPrintf ''WARNING: CHECK cannot verify iptables - failed to get fwmark annotation: %v''
                [] (Some err) w3,
              Return None)
         | (w3, Inr fwmark) \<Rightarrow>
             if fwmark \<noteq> [] then
               (case RuleExists env w3 podIP fwmark of
                  (w4, exists, Some err) \<Rightarrow>
                    (logPrintf ''WARNING: CHECK cannot verify iptables rule existence: %v''
                       [] (Some err) w4,
                     Return None)
                | (w4, exists, None) \<Rightarrow>
                    if \<not> exists then
                      (w4, Return (Some (ConfigDrift fwmark podNamespace podName podIP)))
                    else
                      (logPrintf ''INFO: CHECK verified iptables rule exists for pod %s/%s (IP: %s, fwmark: %s)''
                         [podNamespace, podName, podIP, fwmark] None w4,
                       Return None))
             else (w3, Return None))))
      else
        (logPrintf ''WARNING: CHECK cannot verify iptables - no prevResult available'' [] None w1,
         Return None)))))"

section \<open>A host for running the handlers\<close>

text \<open>
  A healthy host: the wrapper configurations \<open>stdin_ok\<close> and \<open>stdin_prev\<close> (the same with
  the previous result of a create that assigned 10.200.1.5) decode, the chained \<open>ptp\<close>
  plugin assigns 10.200.1.5, the pod \<open>production/web\<close> carries tag \<open>0x10\<close>, pod \<open>dev/web\<close> the
  value \<open>0x99\<close>, namespace \<open>staging\<close> carries \<open>0x20\<close>, namespace \<open>gone\<close> no longer exists,
  the rule tool works and \<^verbatim>\<open>net.ParseIP\<close> is given on the one address in use.
\<close>

definition ipconf_v4 :: IPConfig where
  "ipconf_v4 = \<lparr>Address = \<lparr>IP = Some [10, 200, 1, 5], Mask = [255, 255, 255, 0]\<rparr>, Gateway = None\<rparr>"

definition ipconf_v6 :: IPConfig where
  "ipconf_v6 =
     \<lparr>Address = \<lparr>IP = Some [0x20, 0x01, 0x0d, 0xb8, 0, 0, 0, 0, 0, 0, 0, 0, 0, 0, 0, 1],
                 Mask = [255, 255, 255, 255, 255, 255, 255, 255, 0, 0, 0, 0, 0, 0, 0, 0]\<rparr>,
      Gateway = None\<rparr>"

definition result_ok :: Result where
  "result_ok = Result100 ''1.0.0'' [Some ipconf_v4]"

definition stdin_ok :: string where
  "stdin_ok =
     ''{\"cniVersion\":\"1.0.0\",\"name\":\"tenant-routing\",\"type\":\"tenant-routing-wrapper\",''
     @ ''\"kubeconfig\":\"/etc/cni/net.d/kubeconfig\",\"delegate\":{\"type\":\"ptp\"}}''"

definition stdin_prev :: string where
  "stdin_prev =
     ''{\"cniVersion\":\"1.0.0\",\"name\":\"tenant-routing\",\"type\":\"tenant-routing-wrapper\",''
     @ ''\"kubeconfig\":\"/etc/cni/net.d/kubeconfig\",\"delegate\":{\"type\":\"ptp\"},''
     @ ''\"prevResult\":{\"cniVersion\":\"1.0.0\",\"ips\":[{\"address\":\"10.200.1.5/24\"}]}}''"

definition decoded_ok :: ConfJSON where
  "decoded_ok =
     \<lparr>json_cniVersion = ''1.0.0'', json_name = ''tenant-routing'',
      json_kubeconfig = ''/etc/cni/net.d/kubeconfig'', json_annotationKey = [],
      json_delegate = ''{\"type\":\"ptp\"}'', json_prevResult = None\<rparr>"

definition prev_json :: json where
  "prev_json =
     JObject [(''cniVersion'', JString ''1.0.0''),
              (''ips'', JArray [JObject [(''address'', JString ''10.200.1.5/24'')]])]"

text \<open>The configurations \<open>ParseConfig\<close> makes of them.\<close>

definition conf_ok :: PluginConf where
  "conf_ok =
     \<lparr>CNIVersion = ''1.0.0'', Name = ''tenant-routing'',
      Kubeconfig = ''/etc/cni/net.d/kubeconfig'', AnnotationKey = DefaultAnnotationKey,
      Delegate = ''{\"type\":\"ptp\"}'', RawPrevResult = None, PrevResult = None\<rparr>"

definition conf_prev :: PluginConf where
  "conf_prev = conf_ok\<lparr>RawPrevResult := Some prev_json\<rparr>"

definition cs_ok :: clientset where
  "cs_ok =
     \<lparr>Pods_Get = (\<lambda>ns name.
        if ns = ''production'' \<and> name = ''web'' then Inr [DefaultAnnotationKey \<mapsto> ''0x10'']
        else if ns = ''production'' \<and> name = ''api'' then Inr Map.empty
        else if ns = ''staging'' \<and> name = ''web'' then Inr Map.empty
        else if ns = ''dev'' \<and> name = ''web'' then Inr [DefaultAnnotationKey \<mapsto> ''0x99'']
        else if ns = ''gone'' \<and> name = ''web'' then Inr Map.empty
        else Inl (ApiNotFound ''pods'')),
      Namespaces_Get = (\<lambda>ns.
        if ns = ''staging'' then Inr [DefaultAnnotationKey \<mapsto> ''0x20'']
        else if ns = ''production'' then Inr Map.empty
        else Inl (ApiNotFound ''namespaces''))\<rparr>"

definition env_ok :: env where
  "env_ok =
     \<lparr>json_Unmarshal_conf = (\<lambda>s.
        if s = stdin_ok then Inr decoded_ok
        else if s = stdin_prev then Inr (decoded_ok\<lparr>json_prevResult := Some prev_json\<rparr>)
        else Inl (External ''invalid character'')),
      json_Unmarshal_map = (\<lambda>s.
        if s = ''{\"type\":\"ptp\"}'' then Inr [''type'' \<mapsto> JString ''ptp'']
        else Inl (External ''invalid character'')),
      json_Marshal_map = (\<lambda>m. Inr ''{\"name\":\"tenant-routing\",\"type\":\"ptp\"}''),
      os_Getenv = (\<lambda>k. if k = ''CNI_PATH'' then ''/opt/cni/bin'' else []),
      invoke_DelegateAdd = (\<lambda>ty c. Inr (Some result_ok)),
      invoke_DelegateDel = (\<lambda>ty c. None),
      invoke_DelegateCheck = (\<lambda>ty c. None),
      k8s_NewClient = (\<lambda>p. Inr cs_ok),
      net_ParseIP = (\<lambda>s.
        if s = ''10.200.1.5'' then Some [0, 0, 0, 0, 0, 0, 0, 0, 0, 0, 0xff, 0xff, 10, 200, 1, 5]
        else None),
      iptables_New = None,
      ipt_Exists_err = (\<lambda>r. None),
      ipt_Append_err = (\<lambda>r. None),
      ipt_Delete_err = (\<lambda>r. None),
      range_ValidFwmarkValues = [''0x20'', ''0x10''],
      types_PrintResult = (\<lambda>r v. None)\<rparr>"

definition world0 :: world where
  "world0 = \<lparr>table = [], trace = []\<rparr>"

definition args_web :: "string \<Rightarrow> string \<Rightarrow> CmdArgs" where
  "args_web cniArgs stdin =
     \<lparr>ContainerID = ''c1'', Netns = ''/var/run/netns/c1'', IfName = ''eth0'',
      Args = cniArgs, Path = ''/opt/cni/bin'', StdinData = stdin\<rparr>"

section \<open>Predicates of the specification\<close>

text \<open>
  An entry the extractor passes over: a decoded address record whose IP is nil or not
  an IPv4 address.
\<close>

definition skipped_entry :: "IPConfig option \<Rightarrow> bool" where
  "skipped_entry e =
     (case e of None \<Rightarrow> False | Some ipConfig \<Rightarrow> \<not> IsIPv4 (IP (Address ipConfig)))"

definition ipconf_nil :: IPConfig where
  "ipconf_nil = \<lparr>Address = \<lparr>IP = None, Mask = [255, 255, 255, 0]\<rparr>, Gateway = None\<rparr>"

text \<open>
  A valid (address, tag) pair is one the three operations accept; the rule tool is in
  working order for a rule when none of its four calls fails.
\<close>

definition valid_pair :: "env \<Rightarrow> string \<Rightarrow> string \<Rightarrow> bool" where
  "valid_pair env podIP fwmark =
     (TrimSpace podIP \<noteq> [] \<and> net_ParseIP env podIP \<noteq> None \<and>
      iptables_validateFwmark fwmark = None)"

definition tool_ok :: "env \<Rightarrow> rulespec \<Rightarrow> bool" where
  "tool_ok env rulespec =
     (iptables_New env = None \<and> ipt_Exists_err env rulespec = None \<and>
      ipt_Append_err env rulespec = None \<and> ipt_Delete_err env rulespec = None)"

text \<open>
  Observations on the record of effects: whether \<open>w'\<close> continues the record of \<open>w\<close>, what
  was added, and whether an event prints a result on stdout.
\<close>

definition trace_extends :: "world \<Rightarrow> world \<Rightarrow> bool" where
  "trace_extends w w' = (take (length (trace w)) (trace w') = trace w)"

definition new_events :: "world \<Rightarrow> world \<Rightarrow> event list" where
  "new_events w w' = drop (length (trace w)) (trace w')"

definition is_print :: "event \<Rightarrow> bool" where
  "is_print e = (case e of EvPrintResult _ _ \<Rightarrow> True | _ \<Rightarrow> False)"

text \<open>
  A deletion of the mark rule (address, tag) was attempted within the events \<open>evs\<close>: the
  rule tool was asked whether that rule exists (the step before removing it), or the
  sweep logged that \<^verbatim>\<open>DeleteMarkRule\<close> of that pair failed.
\<close>

definition delete_attempted :: "string \<Rightarrow> string \<Rightarrow> event list \<Rightarrow> bool" where
  "delete_attempted podIP fwmark evs =
     list_ex (\<lambda>e. case e of
                EvIptExists t c rulespec \<Rightarrow>
                  t = tableNameMangle \<and> c = chainPrerouting \<and> rulespec = mark_rulespec podIP fwmark
              | EvLog format strs err \<Rightarrow>
                  format = ''DEBUG: DeleteMarkRule(%s, %s) failed: %v'' \<and> strs = [podIP, fwmark] \<and>
                  err \<noteq> None
              | _ \<Rightarrow> False) evs"

text \<open>\<open>w'\<close> continues \<open>w\<close> by events none of which prints a result.\<close>

definition quiet_step :: "world \<Rightarrow> world \<Rightarrow> bool" where
  "quiet_step w w' = (trace_extends w w' \<and> \<not> list_ex is_print (new_events w w'))"

text \<open>A host on which every tolerated step fails: no metadata store, a chained plugin
  whose DEL exits non-zero, no usable rule tool.\<close>

definition env_down :: env where
  "env_down =
     env_ok\<lparr>k8s_NewClient := (\<lambda>p. Inl (External ''connection refused'')),
            invoke_DelegateDel := (\<lambda>ty c. Some (External ''exit status 1'')),
            iptables_New := Some (External ''executable file not found in $PATH'')\<rparr>"

definition args_ok :: CmdArgs where
  "args_ok = args_web ''K8S_POD_NAME=web;K8S_POD_NAMESPACE=production'' stdin_ok"

definition args_prev :: CmdArgs where
  "args_prev = args_web ''K8S_POD_NAME=web;K8S_POD_NAMESPACE=production'' stdin_prev"

text \<open>Destroy calls: for a pod the metadata store no longer knows, and without any
  identity; and a host on which create has installed the rule of tag \<open>0x10\<close>.\<close>

definition args_lost :: CmdArgs where
  "args_lost = args_web ''K8S_POD_NAME=web;K8S_POD_NAMESPACE=lost'' stdin_prev"

definition args_anon :: CmdArgs where
  "args_anon = args_web [] stdin_prev"

definition world_marked :: world where
  "world_marked = \<lparr>table = [mark_rulespec ''10.200.1.5'' ''0x10''], trace = []\<rparr>"

text \<open>
  What \<^verbatim>\<open>net.ParseIP\<close> is known to accept: dotted-decimal IPv4 and colon-hexadecimal IPv6
  text without a zone, so only hexadecimal digits, dots and colons.
\<close>

definition ip_char :: "char \<Rightarrow> bool" where
  "ip_char c = (c \<in> set ''0123456789abcdefABCDEF.:'')"

definition ParseIP_charset :: "env \<Rightarrow> bool" where
  "ParseIP_charset env = (\<forall>s. net_ParseIP env s \<noteq> None \<longrightarrow> list_all ip_char s)"

text \<open>
  \<open>w'\<close> continues \<open>w\<close> without a call of the rule tool and with the chain as it was.
\<close>

definition is_ipt :: "event \<Rightarrow> bool" where
  "is_ipt e =
     (case e of
        EvIptNew \<Rightarrow> True
      | EvIptExists _ _ _ \<Rightarrow> True
      | EvIptAppend _ _ _ \<Rightarrow> True
      | EvIptDelete _ _ _ \<Rightarrow> True
      | _ \<Rightarrow> False)"

definition calm_step :: "world \<Rightarrow> world \<Rightarrow> bool" where
  "calm_step w w' =
     (table w' = table w \<and> trace_extends w w' \<and> \<not> list_ex is_ipt (new_events w w'))"

section \<open>The record of effects grows, and only the handler prints\<close>

lemma quiet_step_iff:
  "quiet_step w w' \<longleftrightarrow> (\<exists>evs. trace w' = trace w @ evs \<and> (\<forall>e \<in> set evs. \<not> is_print e))"
proof
  assume "quiet_step w w'"
  then have "trace w' = trace w @ new_events w w'" "\<forall>e \<in> set (new_events w w'). \<not> is_print e"
    unfolding quiet_step_def trace_extends_def new_events_def
    by (metis append_take_drop_id, simp add: list_ex_iff)
  then show "\<exists>evs. trace w' = trace w @ evs \<and> (\<forall>e \<in> set evs. \<not> is_print e)" by blast
next
  assume "\<exists>evs. trace w' = trace w @ evs \<and> (\<forall>e \<in> set evs. \<not> is_print e)"
  then show "quiet_step w w'"
    by (auto simp: quiet_step_def trace_extends_def new_events_def list_ex_iff)
qed

lemma quiet_refl: "quiet_step w w"
  by (simp add: quiet_step_iff)

lemma quiet_trans: "quiet_step a b \<Longrightarrow> quiet_step b c \<Longrightarrow> quiet_step a c"
  unfolding quiet_step_iff by (metis Un_iff append.assoc set_append)

lemma quiet_emit: "\<not> is_print e \<Longrightarrow> quiet_step w (emit e w)"
  by (simp add: quiet_step_iff emit_def)

lemma quiet_log: "quiet_step w (logPrintf f a e w)"
  by (simp add: logPrintf_def quiet_emit is_print_def)

lemma quiet_table: "quiet_step w w' \<Longrightarrow> quiet_step w (w'\<lparr>table := t\<rparr>)"
  by (simp add: quiet_step_iff)

lemma quiet_NewManager: "NewManager env w = (w', r) \<Longrightarrow> quiet_step w w'"
  by (auto simp: NewManager_def Let_def quiet_emit is_print_def split: option.splits)

lemma quiet_ipt_Exists: "ipt_Exists env w rs = (w', r) \<Longrightarrow> quiet_step w w'"
  by (auto simp: ipt_Exists_def Let_def quiet_emit is_print_def split: option.splits)

lemma quiet_ipt_Append: "ipt_Append env w rs = (w', r) \<Longrightarrow> quiet_step w w'"
  by (auto simp: ipt_Append_def Let_def quiet_emit quiet_table is_print_def split: option.splits)

lemma quiet_ipt_Delete: "ipt_Delete env w rs = (w', r) \<Longrightarrow> quiet_step w w'"
  by (auto simp: ipt_Delete_def Let_def quiet_emit quiet_table is_print_def
           split: option.splits if_splits)

lemma quiet_AddMarkRule: "AddMarkRule env w podIP fwmark = (w', r) \<Longrightarrow> quiet_step w w'"
  by (auto simp: AddMarkRule_def Let_def quiet_refl
           split: option.splits sum.splits prod.splits if_splits
           dest!: quiet_NewManager quiet_ipt_Exists quiet_ipt_Append intro: quiet_trans)

lemma quiet_DeleteMarkRule: "DeleteMarkRule env w podIP fwmark = (w', r) \<Longrightarrow> quiet_step w w'"
  by (auto simp: DeleteMarkRule_def Let_def quiet_refl
           split: option.splits sum.splits prod.splits if_splits
           dest!: quiet_NewManager quiet_ipt_Exists quiet_ipt_Delete intro: quiet_trans)

lemma quiet_RuleExists: "RuleExists env w podIP fwmark = (w', r) \<Longrightarrow> quiet_step w w'"
  by (auto simp: RuleExists_def Let_def quiet_refl
           split: option.splits sum.splits prod.splits if_splits
           dest!: quiet_NewManager quiet_ipt_Exists intro: quiet_trans)

lemma quiet_NewClient: "NewClient env w k = (w', r) \<Longrightarrow> quiet_step w w'"
  by (auto simp: NewClient_def quiet_emit is_print_def)

lemma quiet_GetFwmark: "GetFwmark cs w n ns key = (w', r) \<Longrightarrow> quiet_step w w'"
proof -
  have 1: "quiet_step w (emit (EvGetPod ns n) w)"
    by (simp add: quiet_emit is_print_def)
  have "quiet_step (emit (EvGetPod ns n) w) (emit (EvGetNamespace ns) (emit (EvGetPod ns n) w))"
    by (simp add: quiet_emit is_print_def)
  then have 2: "quiet_step w (emit (EvGetNamespace ns) (emit (EvGetPod ns n) w))"
    using 1 quiet_trans by blast
  assume "GetFwmark cs w n ns key = (w', r)"
  then show ?thesis
    using 1 2
    by (auto simp: GetFwmark_def Let_def split: option.splits sum.splits if_splits)
qed

lemma quiet_DelegateAdd: "DelegateAdd env w c n s = (w', r) \<Longrightarrow> quiet_step w w'"
  by (auto simp: DelegateAdd_def Let_def quiet_refl quiet_emit is_print_def
           split: option.splits sum.splits prod.splits if_splits)

lemma quiet_DelegateDel: "DelegateDel env w c n s = (w', r) \<Longrightarrow> quiet_step w w'"
  by (auto simp: DelegateDel_def Let_def quiet_refl quiet_emit is_print_def
           split: option.splits sum.splits prod.splits if_splits)

lemma quiet_DelegateCheck: "DelegateCheck env w c n s = (w', r) \<Longrightarrow> quiet_step w w'"
  by (auto simp: DelegateCheck_def Let_def quiet_refl quiet_emit is_print_def
           split: option.splits sum.splits prod.splits if_splits)

lemma conf_ok_parsed:
  "ParseConfig env_ok stdin_ok = Inr conf_ok"
  by code_simp

lemma conf_down_parsed:
  "ParseConfig env_down stdin_ok = Inr conf_ok"
  by code_simp

lemma conf_prev_parsed:
  "ParseConfig env_ok stdin_prev
     = Inr conf_prev"
  by code_simp

lemma uitoa_nonempty: "uitoa n \<noteq> []"
  by (subst uitoa.simps) simp

lemma To4_length: "To4 ip = Some p4 \<Longrightarrow> length p4 = 4"
  by (auto simp: To4_def split: if_splits)

lemma ipv4_String_nonempty: "length p4 = 4 \<Longrightarrow> ipv4_String p4 \<noteq> []"
proof -
  assume "length p4 = 4"
  then obtain a b c d where "p4 = [a, b, c, d]"
    by (cases p4; cases "tl p4"; cases "tl (tl p4)"; cases "tl (tl (tl p4))") auto
  then show ?thesis
    by (simp add: ipv4_String_def uitoa_nonempty)
qed

lemma scanIPs_nonempty: "scanIPs ips = Return (Inr ip) \<Longrightarrow> ip \<noteq> []"
  by (induction ips rule: scanIPs.induct)
     (auto split: option.splits dest: To4_length ipv4_String_nonempty)

lemma ExtractPodIP_nonempty: "ExtractPodIP r = Return (Inr ip) \<Longrightarrow> ip \<noteq> []"
  by (cases r rule: ExtractPodIP.cases)
     (auto simp: extractIPv4FromResult100_def extractIPv4FromResult040_def
           split: if_splits dest: scanIPs_nonempty)

lemma delete_attempted_append:
  "delete_attempted ip t (a @ b) \<longleftrightarrow> delete_attempted ip t a \<or> delete_attempted ip t b"
  by (simp add: delete_attempted_def)

lemma ext_NewManager: "NewManager env w = (w', r) \<Longrightarrow> trace w' = trace w @ [EvIptNew]"
  by (auto simp: NewManager_def Let_def emit_def split: option.splits)

lemma ext_ipt_Exists:
  "ipt_Exists env w rs = (w', r) \<Longrightarrow>
   trace w' = trace w @ [EvIptExists tableNameMangle chainPrerouting rs]"
  by (auto simp: ipt_Exists_def Let_def emit_def split: option.splits)

lemma DeleteMarkRule_attempt:
  assumes "DeleteMarkRule env w ip t = (w', None)"
  shows "\<exists>evs. trace w' = trace w @ evs \<and> delete_attempted ip t evs"
proof -
  obtain w1 where nm: "NewManager env w = (w1, None)"
    using assms
    by (auto simp: DeleteMarkRule_def Let_def split: if_splits option.splits prod.splits)
  obtain w2 ex where ie: "ipt_Exists env w1 (mark_rulespec ip t) = (w2, Inr ex)"
    using assms nm
    by (auto simp: DeleteMarkRule_def Let_def split: if_splits option.splits prod.splits sum.splits)
  have t2: "trace w2 = trace w @ [EvIptNew, EvIptExists tableNameMangle chainPrerouting (mark_rulespec ip t)]"
    using ext_NewManager [OF nm] ext_ipt_Exists [OF ie] by simp
  have "quiet_step w2 w'"
  proof (cases ex)
    case True
    then obtain r3 where "ipt_Delete env w2 (mark_rulespec ip t) = (w', r3)"
      using assms nm ie
      by (auto simp: DeleteMarkRule_def Let_def split: if_splits option.splits prod.splits)
    then show ?thesis by (rule quiet_ipt_Delete)
  next
    case False
    then have "w' = w2"
      using assms nm ie
      by (auto simp: DeleteMarkRule_def Let_def split: if_splits option.splits prod.splits)
    then show ?thesis by (simp add: quiet_refl)
  qed
  then obtain evs where "trace w' = trace w2 @ evs"
    unfolding quiet_step_iff by blast
  then have "trace w' = trace w @ ([EvIptNew, EvIptExists tableNameMangle chainPrerouting (mark_rulespec ip t)] @ evs)"
    using t2 by simp
  moreover have "delete_attempted ip t ([EvIptNew, EvIptExists tableNameMangle chainPrerouting (mark_rulespec ip t)] @ evs)"
    by (simp add: delete_attempted_def)
  ultimately show ?thesis by blast
qed

lemma cleanupLoop_attempts:
  "\<exists>evs. trace (cleanupLoop env w ip ts) = trace w @ evs \<and> (\<forall>t \<in> set ts. delete_attempted ip t evs)"
proof (induction ts arbitrary: w)
  case Nil
  then show ?case by simp
next
  case (Cons t ts)
  obtain w1 r where dm: "DeleteMarkRule env w ip t = (w1, r)"
    by (cases "DeleteMarkRule env w ip t") auto
  define w2 where "w2 = (case r of
      Some err \<Rightarrow> logPrintf ''DEBUG: DeleteMarkRule(%s, %s) failed: %v'' [ip, t] (Some err) w1
    | None \<Rightarrow> w1)"
  have loop: "cleanupLoop env w ip (t # ts) = cleanupLoop env w2 ip ts"
    using dm by (simp add: w2_def split: option.split)
  have first: "\<exists>evs. trace w2 = trace w @ evs \<and> delete_attempted ip t evs"
  proof (cases r)
    case None
    then show ?thesis
      using DeleteMarkRule_attempt [of env w ip t w1] dm by (simp add: w2_def)
  next
    case (Some err)
    obtain evs where "trace w1 = trace w @ evs"
      using quiet_DeleteMarkRule [OF dm] unfolding quiet_step_iff by blast
    then have "trace w2 = trace w @ (evs @ [EvLog ''DEBUG: DeleteMarkRule(%s, %s) failed: %v'' [ip, t] (Some err)])"
      using Some by (simp add: w2_def logPrintf_def emit_def)
    moreover have "delete_attempted ip t (evs @ [EvLog ''DEBUG: DeleteMarkRule(%s, %s) failed: %v'' [ip, t] (Some err)])"
      by (simp add: delete_attempted_def)
    ultimately show ?thesis by blast
  qed
  then obtain e1 where e1: "trace w2 = trace w @ e1" "delete_attempted ip t e1" by blast
  obtain e2 where e2: "trace (cleanupLoop env w2 ip ts) = trace w2 @ e2"
      "\<forall>t \<in> set ts. delete_attempted ip t e2"
    using Cons.IH [of w2] by blast
  have "trace (cleanupLoop env w ip (t # ts)) = trace w @ (e1 @ e2)"
    using loop e1 e2 by simp
  moreover have "\<forall>u \<in> set (t # ts). delete_attempted ip u (e1 @ e2)"
    using e1 e2 by (simp add: delete_attempted_append)
  ultimately show ?case by blast
qed

lemma sweep_after:
  assumes "quiet_step w wa"
  shows "trace_extends w (cleanupIptablesRules env wa ip) \<and>
         (\<forall>t \<in> set (range_ValidFwmarkValues env).
            delete_attempted ip t (new_events w (cleanupIptablesRules env wa ip)))"
proof -
  obtain e0 where e0: "trace wa = trace w @ e0"
    using assms unfolding quiet_step_iff by blast
  obtain e1 where e1: "trace (cleanupIptablesRules env wa ip) = trace wa @ e1"
      "\<forall>t \<in> set (range_ValidFwmarkValues env). delete_attempted ip t e1"
    using cleanupLoop_attempts [of env wa ip "range_ValidFwmarkValues env"]
    unfolding cleanupIptablesRules_def by blast
  have "trace (cleanupIptablesRules env wa ip) = trace w @ (e0 @ e1)"
    using e0 e1 by simp
  then show ?thesis
    using e1(2) by (simp add: trace_extends_def new_events_def delete_attempted_append)
qed

lemma dom_ValidFwmarkValues: "dom ValidFwmarkValues = {''0x10'', ''0x20''}"
  by (auto simp: ValidFwmarkValues_def)

lemma ParseConfig_PrevResult: "ParseConfig env stdin = Inr conf \<Longrightarrow> PrevResult conf = None"
  by (auto simp: ParseConfig_def Let_def split: sum.splits if_splits)

section \<open>Create: malformed calls never reach the delegate\<close>

lemma SplitN2_two:
  assumes "length (SplitN2 f sep) = 2"
  shows "f = SplitN2 f sep ! 0 @ sep # SplitN2 f sep ! 1"
proof -
  have in_f: "sep \<in> set f"
    using assms by (auto simp: SplitN2_def split: if_splits)
  then have "dropWhile (\<lambda>c. c \<noteq> sep) f \<noteq> []" by simp
  moreover have "hd (dropWhile (\<lambda>c. c \<noteq> sep) f) = sep"
    using in_f hd_dropWhile [of "\<lambda>c. c \<noteq> sep" f] by auto
  ultimately have "dropWhile (\<lambda>c. c \<noteq> sep) f = sep # tl (dropWhile (\<lambda>c. c \<noteq> sep) f)"
    by (cases "dropWhile (\<lambda>c. c \<noteq> sep) f") auto
  then have "f = takeWhile (\<lambda>c. c \<noteq> sep) f @ sep # tl (dropWhile (\<lambda>c. c \<noteq> sep) f)"
    using takeWhile_dropWhile_id [of "\<lambda>c. c \<noteq> sep" f] by simp
  then show ?thesis
    using in_f by (simp add: SplitN2_def)
qed

lemma key_prefix:
  assumes "length (SplitN2 pair CHR ''='') = 2" "SplitN2 pair CHR ''='' ! 0 = k"
  shows "HasPrefix pair (k @ ''='')"
proof -
  have "pair = k @ CHR ''='' # SplitN2 pair CHR ''='' ! 1"
    using SplitN2_two [OF assms(1)] assms(2) by simp
  then obtain v where "pair = (k @ ''='') @ v" by simp
  then show ?thesis by (simp add: HasPrefix_def)
qed


lemma parsePairs_no_name:
  "\<forall>f \<in> set pairs. \<not> HasPrefix f ''K8S_POD_NAME='' \<Longrightarrow> fst (parsePairs pairs (n, ns)) = n"
proof (induction pairs arbitrary: n ns)
  case Nil
  then show ?case by simp
next
  case (Cons pair pairs)
  have np: "\<not> HasPrefix pair (''K8S_POD_NAME'' @ ''='')"
    using Cons.prems by simp
  have "\<not> (length (SplitN2 pair CHR ''='') = 2 \<and> SplitN2 pair CHR ''='' ! 0 = ''K8S_POD_NAME'')"
    using key_prefix [of pair "''K8S_POD_NAME''"] np by blast
  moreover have "fst (parsePairs pairs (a, b)) = a" for a b
    using Cons.IH Cons.prems by simp
  ultimately show ?case
    by (simp add: Let_def)
qed

lemma parsePairs_no_namespace:
  "\<forall>f \<in> set pairs. \<not> HasPrefix f ''K8S_POD_NAMESPACE='' \<Longrightarrow> snd (parsePairs pairs (n, ns)) = ns"
proof (induction pairs arbitrary: n ns)
  case Nil
  then show ?case by simp
next
  case (Cons pair pairs)
  have np: "\<not> HasPrefix pair (''K8S_POD_NAMESPACE'' @ ''='')"
    using Cons.prems by simp
  have "\<not> (length (SplitN2 pair CHR ''='') = 2 \<and> SplitN2 pair CHR ''='' ! 0 = ''K8S_POD_NAMESPACE'')"
    using key_prefix [of pair "''K8S_POD_NAMESPACE''"] np by blast
  moreover have "snd (parsePairs pairs (a, b)) = b" for a b
    using Cons.IH Cons.prems by simp
  ultimately show ?case
    by (simp add: Let_def)
qed

lemma parseCNIArgs_missing_key:
  assumes "(\<forall>f \<in> set (Split cniArgs CHR '';''). \<not> HasPrefix f ''K8S_POD_NAME='') \<or>
           (\<forall>f \<in> set (Split cniArgs CHR '';''). \<not> HasPrefix f ''K8S_POD_NAMESPACE='')"
  shows "\<exists>e. parseCNIArgs cniArgs = Inl e"
proof -
  obtain a b where ab: "parsePairs (Split cniArgs CHR '';'') ([], []) = (a, b)"
    by (cases "parsePairs (Split cniArgs CHR '';'') ([], [])") auto
  have "a = [] \<or> b = []"
    using assms parsePairs_no_name [of "Split cniArgs CHR '';''" "[]" "[]"]
      parsePairs_no_namespace [of "Split cniArgs CHR '';''" "[]" "[]"] ab
    by auto
  then show ?thesis
    by (auto simp: parseCNIArgs_def ab)
qed

text \<open>
  C1. When the configuration fails to parse, or \<open>parseCNIArgs\<close> fails on the argument
  string (in particular when no pair of the string has the key \<^verbatim>\<open>K8S_POD_NAME\<close>, or none the
  key \<^verbatim>\<open>K8S_POD_NAMESPACE\<close>), \<open>cmdAdd\<close> returns an error and the host is exactly as before:
  the chained plugin was not executed and nothing else was called, logged or printed.
\<close>

theorem cmdAdd_rejects_before_delegation:
  assumes "(\<exists>e. ParseConfig env (StdinData args) = Inl e) \<or>
           (\<exists>e. parseCNIArgs (Args args) = Inl e) \<or>
           (\<forall>f \<in> set (Split (Args args) CHR '';''). \<not> HasPrefix f ''K8S_POD_NAME='') \<or>
           (\<forall>f \<in> set (Split (Args args) CHR '';''). \<not> HasPrefix f ''K8S_POD_NAMESPACE='')"
  shows "\<exists>err. cmdAdd env w args = (w, Return (Some err))"
proof -
  have bad: "(\<exists>e. ParseConfig env (StdinData args) = Inl e) \<or> (\<exists>e. parseCNIArgs (Args args) = Inl e)"
    using assms parseCNIArgs_missing_key [of "Args args"] by blast
  show ?thesis
  proof (cases "ParseConfig env (StdinData args)")
    case (Inl e)
    then show ?thesis by (simp add: cmdAdd_def)
  next
    case (Inr conf)
    with bad obtain e where "parseCNIArgs (Args args) = Inl e" by auto
    with Inr show ?thesis by (simp add: cmdAdd_def)
  qed
qed

theorem cmdAdd_rejects_before_delegation_witness:
  "cmdAdd env_ok world0 (args_web ''K8S_POD_NAMESPACE=default'' stdin_ok)
     = (world0, Return (Some (FailedParseArgs PodNameNotFound))) \<and>
   ParseConfig env_ok ''{invalid json}'' = Inl (ConfigUnmarshal (External ''invalid character'')) \<and>
   (\<exists>err. cmdAdd env_ok world0 (args_web ''K8S_POD_NAME=web;K8S_POD_NAMESPACE=production'' ''{invalid json}'')
     = (world0, Return (Some err)))"
proof -
  have h: "\<forall>f \<in> set (Split ''K8S_POD_NAMESPACE=default'' CHR '';''). \<not> HasPrefix f ''K8S_POD_NAME=''"
    by (simp add: HasPrefix_def)
  have a: "Args (args_web ''K8S_POD_NAMESPACE=default'' stdin_ok) = ''K8S_POD_NAMESPACE=default''"
    by (simp add: args_web_def)
  have c: "ParseConfig env_ok ''{invalid json}'' = Inl (ConfigUnmarshal (External ''invalid character''))"
    by code_simp
  have v: "cmdAdd env_ok world0 (args_web ''K8S_POD_NAMESPACE=default'' stdin_ok)
     = (world0, Return (Some (FailedParseArgs PodNameNotFound)))"
    by code_simp
  show ?thesis
    using h c v
      cmdAdd_rejects_before_delegation
        [of env_ok "args_web ''K8S_POD_NAMESPACE=default'' stdin_ok" world0]
      cmdAdd_rejects_before_delegation
        [of env_ok "args_web ''K8S_POD_NAME=web;K8S_POD_NAMESPACE=production'' ''{invalid json}''" world0]
    by (simp add: args_web_def)
qed

section \<open>Create: the output is the delegate's result\<close>

text \<open>
  C2. When the configuration and the arguments parse, the delegate's create returns the
  result \<open>res\<close> and an address is extracted from it, \<open>cmdAdd\<close> ends by printing exactly \<open>res\<close>
  (with the configured version) and returns what printing returns; nothing was printed
  before. This holds for every behaviour of the metadata-store client, of the tag
  lookup and of the rule tool: their failures change neither the output nor the
  outcome.
\<close>

theorem cmdAdd_emits_delegate_result:
  assumes conf: "ParseConfig env (StdinData args) = Inr conf"
    and ids: "parseCNIArgs (Args args) = Inr (n, ns)"
    and del: "DelegateAdd env w (Delegate conf) (Name conf) (StdinData args) = (w1, Inr res)"
    and ip: "ExtractPodIP res = Return (Inr ip)"
  shows "\<exists>w2. quiet_step w w2 \<and>
           cmdAdd env w args
             = (emit (EvPrintResult res (CNIVersion conf)) w2,
                Return (types_PrintResult env res (CNIVersion conf)))"
proof -
  have q1: "quiet_step w w1"
    using del by (rule quiet_DelegateAdd)
  obtain w2 rc where nc: "NewClient env w1 (Kubeconfig conf) = (w2, rc)"
    by (cases "NewClient env w1 (Kubeconfig conf)") auto
  have q2: "quiet_step w w2"
    using q1 quiet_NewClient [OF nc] quiet_trans by blast
  show ?thesis
  proof (cases rc)
    case (Inl err)
    have "quiet_step w (logPrintf ''WARNING: failed to create K8s client, skipping fwmark setup: %v'' [] (Some err) w2)"
      using q2 quiet_log quiet_trans by blast
    then show ?thesis
      using conf ids del ip nc Inl by (auto simp: cmdAdd_def PrintResult_def)
  next
    case (Inr cs)
    obtain w3 rf where gf: "GetFwmark cs w2 n ns (AnnotationKey conf) = (w3, rf)"
      by (cases "GetFwmark cs w2 n ns (AnnotationKey conf)") auto
    have q3: "quiet_step w w3"
      using q2 quiet_GetFwmark [OF gf] quiet_trans by blast
    show ?thesis
    proof (cases rf)
      case (Inl err)
      have "quiet_step w (logPrintf ''WARNING: failed to get fwmark annotation for %s/%s: %v'' [ns, n] (Some err) w3)"
        using q3 quiet_log quiet_trans by blast
      then show ?thesis
        using conf ids del ip nc \<open>rc = Inr cs\<close> gf Inl by (auto simp: cmdAdd_def PrintResult_def)
    next
      case (Inr fw)
      show ?thesis
      proof (cases "fw = []")
        case True
        then show ?thesis
          using conf ids del ip nc \<open>rc = Inr cs\<close> gf Inr q3
          by (auto simp: cmdAdd_def PrintResult_def)
      next
        case False
        obtain w4 ra where am: "AddMarkRule env w3 ip fw = (w4, ra)"
          by (cases "AddMarkRule env w3 ip fw") auto
        have q4: "quiet_step w w4"
          using q3 quiet_AddMarkRule [OF am] quiet_trans by blast
        have q5: "quiet_step w (logPrintf f a e w4)" for f a e
          using q4 quiet_log quiet_trans by blast
        show ?thesis
          using conf ids del ip nc \<open>rc = Inr cs\<close> gf Inr False am q5
          by (cases ra) (auto simp: cmdAdd_def PrintResult_def)
      qed
    qed
  qed
qed

theorem cmdAdd_emits_delegate_result_witness:
  "(\<exists>w2. quiet_step world0 w2 \<and>
      cmdAdd env_ok world0 args_ok
        = (emit (EvPrintResult (Some result_ok) ''1.0.0'') w2, Return None)) \<and>
   table (fst (cmdAdd env_ok world0 args_ok)) = [mark_rulespec ''10.200.1.5'' ''0x10''] \<and>
   (\<exists>w2. quiet_step world0 w2 \<and>
      cmdAdd env_down world0 args_ok
        = (emit (EvPrintResult (Some result_ok) ''1.0.0'') w2, Return None)) \<and>
   table (fst (cmdAdd env_down world0 args_ok)) = []"
proof -
  have a: "parseCNIArgs (Args args_ok) = Inr (''web'', ''production'')"
    by code_simp
  have s: "StdinData args_ok = stdin_ok"
    by (simp add: args_ok_def args_web_def)
  have d1: "DelegateAdd env_ok world0 (Delegate conf_ok)
              (Name conf_ok) (StdinData args_ok)
            = (emit (EvInvoke ''ADD'' ''ptp'' ''{\"name\":\"tenant-routing\",\"type\":\"ptp\"}'') world0,
               Inr (Some result_ok))"
    by code_simp
  have d2: "DelegateAdd env_down world0 (Delegate conf_ok)
              (Name conf_ok) (StdinData args_ok)
            = (emit (EvInvoke ''ADD'' ''ptp'' ''{\"name\":\"tenant-routing\",\"type\":\"ptp\"}'') world0,
               Inr (Some result_ok))"
    by code_simp
  have x: "ExtractPodIP (Some result_ok) = Return (Inr ''10.200.1.5'')"
    by code_simp
  have t1: "table (fst (cmdAdd env_ok world0 args_ok)) = [mark_rulespec ''10.200.1.5'' ''0x10'']"
    by code_simp
  have t2: "table (fst (cmdAdd env_down world0 args_ok)) = []"
    by code_simp
  have p1: "types_PrintResult env_ok (Some result_ok) ''1.0.0'' = None"
    by (simp add: env_ok_def)
  have p2: "types_PrintResult env_down (Some result_ok) ''1.0.0'' = None"
    by (simp add: env_down_def env_ok_def)
  have v: "CNIVersion conf_ok = ''1.0.0''"
    by (simp add: conf_ok_def)
  show ?thesis
    using cmdAdd_emits_delegate_result [OF conf_ok_parsed [folded s] a d1 x]
      cmdAdd_emits_delegate_result [OF conf_down_parsed [folded s] a d2 x]
      t1 t2
    by (simp add: p1 p2 v)
qed

section \<open>Verify: missing identity is tolerated after delegation\<close>

text \<open>
  C3, as stated, fails: with a well-formed configuration and an argument string that
  lacks \<^verbatim>\<open>K8S_POD_NAME\<close>, \<open>cmdCheck\<close> executes the chained plugin's CHECK, logs a warning and
  returns success.
\<close>

theorem cmdCheck_missing_name_succeeds:
  "parseCNIArgs ''K8S_POD_NAMESPACE=default'' = Inl PodNameNotFound \<and>
   ParseConfig env_ok stdin_ok = Inr conf_ok \<and>
   cmdCheck env_ok world0 (args_web ''K8S_POD_NAMESPACE=default'' stdin_ok)
     = (\<lparr>table = [],
         trace = [EvInvoke ''CHECK'' ''ptp'' ''{\"name\":\"tenant-routing\",\"type\":\"ptp\"}'',
                  EvLog ''WARNING: CHECK cannot verify iptables - failed to parse CNI_ARGS: %v'' []
                    (Some PodNameNotFound)]\<rparr>,
        Return None)"
  by code_simp

text \<open>
  C3, amended. With a well-formed configuration and an argument string on which
  \<open>parseCNIArgs\<close> fails, \<open>cmdCheck\<close> first runs the delegate's verify; it returns an error
  exactly when that fails (the delegate's error), and otherwise logs one warning and
  returns success, with no request to the metadata store and no call of the rule tool.
\<close>

theorem cmdCheck_missing_args:
  assumes "ParseConfig env (StdinData args) = Inr conf" and "parseCNIArgs (Args args) = Inl e"
  shows "cmdCheck env w args =
           (case DelegateCheck env w (Delegate conf) (Name conf) (StdinData args) of
              (w1, Some err) \<Rightarrow> (w1, Return (Some (DelegateCheckFailed err)))
            | (w1, None) \<Rightarrow>
                (logPrintf ''WARNING: CHECK cannot verify iptables - failed to parse CNI_ARGS: %v''
                   [] (Some e) w1,
                 Return None))"
  using assms by (simp add: cmdCheck_def)

theorem cmdCheck_missing_args_witness:
  "ParseConfig env_ok (StdinData (args_web [] stdin_ok)) = Inr conf_ok \<and>
   parseCNIArgs (Args (args_web [] stdin_ok)) = Inl ArgsEmpty \<and>
   snd (cmdCheck env_ok world0 (args_web [] stdin_ok)) = Return None"
proof -
  have c: "ParseConfig env_ok (StdinData (args_web [] stdin_ok)) = Inr conf_ok"
    by code_simp
  have a: "parseCNIArgs (Args (args_web [] stdin_ok)) = Inl ArgsEmpty"
    by code_simp
  have d: "snd (DelegateCheck env_ok world0 (Delegate conf_ok)
                (Name conf_ok) (StdinData (args_web [] stdin_ok))) = None"
    by code_simp
  show ?thesis
    using c a d cmdCheck_missing_args [OF c a, of world0]
    by (simp split: prod.splits option.splits)
qed

section \<open>Verify: the drift case is never reached\<close>

lemma cmdCheck_error_iff:
  "snd (cmdCheck env w args) = Return (Some err) \<longleftrightarrow>
     (\<exists>e. ParseConfig env (StdinData args) = Inl e \<and> err = FailedParseConfig e) \<or>
     (\<exists>conf w1 e.
        ParseConfig env (StdinData args) = Inr conf \<and>
        DelegateCheck env w (Delegate conf) (Name conf) (StdinData args) = (w1, Some e) \<and>
        err = DelegateCheckFailed e)"
proof (cases "ParseConfig env (StdinData args)")
  case (Inl e)
  then show ?thesis
    by (auto simp: cmdCheck_def)
next
  case (Inr conf)
  then have "PrevResult conf = None"
    by (rule ParseConfig_PrevResult)
  with Inr show ?thesis
    by (auto simp: cmdCheck_def Let_def split: sum.splits prod.splits option.splits)
qed

lemma cmdCheck_never_drift:
  "snd (cmdCheck env w args) \<noteq> Return (Some (ConfigDrift fwmark podNamespace podName podIP))"
  using cmdCheck_error_iff [of env w args "ConfigDrift fwmark podNamespace podName podIP"]
  by auto

text \<open>
  C4. Of the three cases of the claim \<open>cmdCheck\<close> has the first two only
  (\<open>cmdCheck_error_iff\<close>): \<open>ParseConfig\<close> leaves \<open>PrevResult\<close> nil whatever previous result the
  configuration carries, so \<open>cmdCheck\<close> leaves through its "no prevResult available"
  exit and no drift error is ever returned (\<open>cmdCheck_never_drift\<close>). At the input of
  the claim's third case, a configuration carrying the previous result of a create
  that assigned 10.200.1.5, the pod \<open>production/web\<close> annotated with tag \<open>0x10\<close>, and a
  chain in which the existence query succeeds and finds no rule, the handler runs the
  delegate's verify, logs that there is no previous result and returns success.
\<close>

theorem cmdCheck_misses_drift:
  "ParseConfig env_ok (StdinData args_prev) = Inr conf_prev \<and>
   RawPrevResult conf_prev = Some prev_json \<and>
   PrevResult conf_prev = None \<and>
   parseCNIArgs (Args args_prev) = Inr (''web'', ''production'') \<and>
   snd (GetFwmark cs_ok world0 ''web'' ''production'' (AnnotationKey conf_prev)) = Inr ''0x10'' \<and>
   snd (RuleExists env_ok world0 ''10.200.1.5'' ''0x10'') = (False, None) \<and>
   cmdCheck env_ok world0 args_prev
     = (\<lparr>table = [],
         trace = [EvInvoke ''CHECK'' ''ptp'' ''{\"name\":\"tenant-routing\",\"type\":\"ptp\"}'',
                  EvLog ''WARNING: CHECK cannot verify iptables - no prevResult available''
                    [] None]\<rparr>,
        Return None)"
  by code_simp

section \<open>Destroy never fails\<close>

text \<open>
  C5. \<open>cmdDel\<close> returns success, neither an error nor a panic, for every configuration
  blob and argument string and for every behaviour of the JSON decoder, the delegate,
  the metadata store and the rule tool.
\<close>

theorem cmdDel_never_fails:
  "snd (cmdDel env w args) = Return None"
proof (cases "ParseConfig env (StdinData args)")
  case (Inl e)
  then show ?thesis
    by (simp add: cmdDel_def)
next
  case (Inr conf)
  then have "PrevResult conf = None"
    by (rule ParseConfig_PrevResult)
  with Inr show ?thesis
    by (simp add: cmdDel_def Let_def split: sum.split prod.split option.split)
qed

theorem cmdDel_never_fails_witness:
  "snd (cmdDel env_down world0 (args_web [] ''{invalid json}'')) = Return None \<and>
   snd (cmdDel env_down world_marked args_lost) = Return None \<and>
   table (fst (cmdDel env_down world_marked args_lost)) = table world_marked"
proof -
  have t: "table (fst (cmdDel env_down world_marked args_lost)) = table world_marked"
    by code_simp
  show ?thesis
    using cmdDel_never_fails [of env_down world0 "args_web [] ''{invalid json}''"]
      cmdDel_never_fails [of env_down world_marked args_lost] t
    by simp
qed

section \<open>Destroy: the sweep is never reached\<close>

lemma calm_step_iff:
  "calm_step w w' \<longleftrightarrow>
     table w' = table w \<and> (\<exists>evs. trace w' = trace w @ evs \<and> (\<forall>e \<in> set evs. \<not> is_ipt e))"
proof
  assume "calm_step w w'"
  then have "table w' = table w" "trace w' = trace w @ new_events w w'"
      "\<forall>e \<in> set (new_events w w'). \<not> is_ipt e"
    unfolding calm_step_def trace_extends_def new_events_def
    by (simp, metis append_take_drop_id, simp add: list_ex_iff)
  then show "table w' = table w \<and> (\<exists>evs. trace w' = trace w @ evs \<and> (\<forall>e \<in> set evs. \<not> is_ipt e))"
    by blast
next
  assume "table w' = table w \<and> (\<exists>evs. trace w' = trace w @ evs \<and> (\<forall>e \<in> set evs. \<not> is_ipt e))"
  then show "calm_step w w'"
    by (auto simp: calm_step_def trace_extends_def new_events_def list_ex_iff)
qed

lemma calm_refl: "calm_step w w"
  by (simp add: calm_step_iff)

lemma calm_trans: "calm_step a b \<Longrightarrow> calm_step b c \<Longrightarrow> calm_step a c"
  unfolding calm_step_iff by (metis Un_iff append.assoc set_append)

lemma calm_log: "calm_step w (logPrintf f a e w)"
  by (simp add: calm_step_iff logPrintf_def emit_def is_ipt_def)

lemma calm_DelegateDel: "DelegateDel env w c n s = (w', r) \<Longrightarrow> calm_step w w'"
  by (auto simp: DelegateDel_def Let_def calm_step_iff emit_def is_ipt_def
           split: option.splits sum.splits prod.splits if_splits)

lemma cmdDel_never_calls_rule_tool: "calm_step w (fst (cmdDel env w args))"
proof (cases "ParseConfig env (StdinData args)")
  case (Inl e)
  then show ?thesis
    by (simp add: cmdDel_def calm_log)
next
  case (Inr conf)
  then have prev: "PrevResult conf = None"
    by (rule ParseConfig_PrevResult)
  define w1 where "w1 = (case parseCNIArgs (Args args) of
      Inl err \<Rightarrow> logPrintf ''WARNING: failed to parse CNI_ARGS in DEL: %v'' [] (Some err) w
    | Inr p \<Rightarrow> w)"
  have q1: "calm_step w w1"
    by (simp add: w1_def calm_log calm_refl split: sum.split)
  obtain w3 rd where dd: "DelegateDel env w1 (Delegate conf) (Name conf) (StdinData args) = (w3, rd)"
    by (cases "DelegateDel env w1 (Delegate conf) (Name conf) (StdinData args)") auto
  define w4 where "w4 = (case rd of
      Some err \<Rightarrow> logPrintf ''WARNING: delegate DEL failed: %v'' [] (Some err) w3
    | None \<Rightarrow> w3)"
  have q4: "calm_step w w4"
    using q1 calm_DelegateDel [OF dd] calm_log calm_trans
    by (auto simp: w4_def split: option.split)
  have "fst (cmdDel env w args) = w4"
    using Inr prev dd
    by (cases rd; cases "parseCNIArgs (Args args)")
       (auto simp: cmdDel_def w1_def w4_def)
  then show ?thesis
    using q4 by simp
qed

text \<open>
  C6. \<open>cmdDel\<close> never gets to an address: \<open>ParseConfig\<close> leaves \<open>PrevResult\<close> nil whatever
  previous result the configuration carries, so the address stays empty, neither
  cleanup branch is entered, and no invocation calls the rule tool or changes the chain
  (\<open>cmdDel_never_calls_rule_tool\<close>); the sweep \<open>cleanupIptablesRules\<close>, which would attempt
  every tag (\<open>sweep_after\<close>), is not called. At the inputs of the claim, a configuration
  carrying the previous result of a create that assigned 10.200.1.5 and a chain holding
  the rule of tag \<open>0x10\<close> for it: without identity \<open>cmdDel\<close> logs the argument failure,
  runs the delegate's destroy and returns; with the identity of a pod the metadata
  store no longer knows it runs the delegate's destroy and returns, without asking the
  metadata store. In both the rule stays and no deletion is attempted for any tag.
\<close>

theorem cmdDel_skips_sweep:
  "ParseConfig env_ok (StdinData args_anon) = Inr conf_prev \<and>
   ParseConfig env_ok (StdinData args_lost) = Inr conf_prev \<and>
   RawPrevResult conf_prev = Some prev_json \<and>
   PrevResult conf_prev = None \<and>
   parseCNIArgs (Args args_anon) = Inl ArgsEmpty \<and>
   parseCNIArgs (Args args_lost) = Inr (''web'', ''lost'') \<and>
   snd (GetFwmark cs_ok world0 ''web'' ''lost'' (AnnotationKey conf_prev))
     = Inl (PodNotFound ''lost'' ''web'' (ApiNotFound ''pods'')) \<and>
   cmdDel env_ok world_marked args_anon
     = (\<lparr>table = [mark_rulespec ''10.200.1.5'' ''0x10''],
         trace = [EvLog ''WARNING: failed to parse CNI_ARGS in DEL: %v'' [] (Some ArgsEmpty),
                  EvInvoke ''DEL'' ''ptp'' ''{\"name\":\"tenant-routing\",\"type\":\"ptp\"}'']\<rparr>,
        Return None) \<and>
   cmdDel env_ok world_marked args_lost
     = (\<lparr>table = [mark_rulespec ''10.200.1.5'' ''0x10''],
         trace = [EvInvoke ''DEL'' ''ptp'' ''{\"name\":\"tenant-routing\",\"type\":\"ptp\"}'']\<rparr>,
        Return None) \<and>
   \<not> delete_attempted ''10.200.1.5'' ''0x10''
       (new_events world_marked (fst (cmdDel env_ok world_marked args_anon))) \<and>
   \<not> delete_attempted ''10.200.1.5'' ''0x20''
       (new_events world_marked (fst (cmdDel env_ok world_marked args_anon))) \<and>
   \<not> delete_attempted ''10.200.1.5'' ''0x10''
       (new_events world_marked (fst (cmdDel env_ok world_marked args_lost))) \<and>
   \<not> delete_attempted ''10.200.1.5'' ''0x20''
       (new_events world_marked (fst (cmdDel env_ok world_marked args_lost)))"
  by code_simp

section \<open>Mark-Rule Manager: idempotent add and delete\<close>

lemma AddMarkRule_ok:
  assumes "valid_pair env podIP fwmark" "tool_ok env (mark_rulespec podIP fwmark)"
  shows "snd (AddMarkRule env w podIP fwmark) = None"
    and "table (fst (AddMarkRule env w podIP fwmark))
         = (if mark_rulespec podIP fwmark \<in> set (table w) then table w
            else table w @ [mark_rulespec podIP fwmark])"
  using assms
  by (auto simp: valid_pair_def tool_ok_def AddMarkRule_def NewManager_def ipt_Exists_def
                 ipt_Append_def emit_def Let_def)

lemma DeleteMarkRule_ok:
  assumes "valid_pair env podIP fwmark" "tool_ok env (mark_rulespec podIP fwmark)"
  shows "snd (DeleteMarkRule env w podIP fwmark) = None"
    and "table (fst (DeleteMarkRule env w podIP fwmark))
         = (if mark_rulespec podIP fwmark \<in> set (table w)
            then remove1 (mark_rulespec podIP fwmark) (table w) else table w)"
  using assms
  by (auto simp: valid_pair_def tool_ok_def DeleteMarkRule_def NewManager_def ipt_Exists_def
                 ipt_Delete_def emit_def Let_def)

lemma count_remove1: "count_list (remove1 r xs) r = count_list xs r - 1"
  by (induction xs) auto

lemma count_zero_iff: "count_list xs r = 0 \<longleftrightarrow> r \<notin> set xs"
  by (induction xs) auto

text \<open>
  C7. For a valid (address, tag) pair and a rule tool in working order, with \<open>r\<close> the
  pair's rule: add and delete succeed; add leaves the chain as it is when \<open>r\<close> is present
  and appends exactly \<open>r\<close> otherwise; delete leaves the chain as it is when \<open>r\<close> is absent
  and removes \<open>r\<close> otherwise. Hence, on a chain holding \<open>r\<close> at most once (which add
  and delete preserve), add twice leaves exactly one \<open>r\<close>, delete twice leaves none, and
  after an add and a delete a second delete changes nothing.
\<close>

theorem mark_rule_idempotent:
  assumes "valid_pair env podIP fwmark" and "tool_ok env (mark_rulespec podIP fwmark)"
  shows "let r = mark_rulespec podIP fwmark;
             add = (\<lambda>w. fst (AddMarkRule env w podIP fwmark));
             del = (\<lambda>w. fst (DeleteMarkRule env w podIP fwmark))
         in snd (AddMarkRule env w podIP fwmark) = None \<and>
            snd (DeleteMarkRule env w podIP fwmark) = None \<and>
            (r \<in> set (table w) \<longrightarrow> table (add w) = table w) \<and>
            (r \<notin> set (table w) \<longrightarrow> table (add w) = table w @ [r]) \<and>
            (r \<notin> set (table w) \<longrightarrow> table (del w) = table w) \<and>
            (r \<in> set (table w) \<longrightarrow> table (del w) = remove1 r (table w)) \<and>
            (count_list (table w) r \<le> 1 \<longrightarrow>
               count_list (table (add w)) r \<le> 1 \<and>
               count_list (table (del w)) r \<le> 1 \<and>
               count_list (table (add (add w))) r = 1 \<and>
               count_list (table (del (del w))) r = 0 \<and>
               table (del (del (add w))) = table (del (add w)))"
proof -
  define r where "r = mark_rulespec podIP fwmark"
  define add where "add = (\<lambda>w. fst (AddMarkRule env w podIP fwmark))"
  define del where "del = (\<lambda>w. fst (DeleteMarkRule env w podIP fwmark))"
  have add_t: "table (add w) = (if r \<in> set (table w) then table w else table w @ [r])" for w
    unfolding add_def r_def by (rule AddMarkRule_ok(2) [OF assms])
  have del_t: "table (del w) = (if r \<in> set (table w) then remove1 r (table w) else table w)" for w
    unfolding del_def r_def by (rule DeleteMarkRule_ok(2) [OF assms])
  have rem: "r \<notin> set (remove1 r xs)" if "count_list xs r \<le> 1" for xs
    using that count_remove1 [of r xs] count_zero_iff [of "remove1 r xs" r] by simp
  have one: "count_list xs r = 1" if "count_list xs r \<le> 1" "r \<in> set xs" for xs
    using that count_zero_iff [of xs r] by (cases "count_list xs r") auto
  have zero: "count_list xs r = 0" if "r \<notin> set xs" for xs
    using that by (simp add: count_zero_iff)
  have twice_add: "count_list (table (add (add w))) r = 1" if "count_list (table w) r \<le> 1"
    using that by (simp add: add_t one zero)
  have twice_del: "count_list (table (del (del w))) r = 0" if "count_list (table w) r \<le> 1"
    using that by (simp add: del_t rem zero)
  have third: "table (del (del (add w))) = table (del (add w))" if "count_list (table w) r \<le> 1"
  proof (cases "r \<in> set (table w)")
    case True
    then show ?thesis using that by (simp add: add_t del_t rem)
  next
    case False
    then show ?thesis by (simp add: add_t del_t remove1_append)
  qed
  have "snd (AddMarkRule env w podIP fwmark) = None \<and>
        snd (DeleteMarkRule env w podIP fwmark) = None \<and>
        (r \<in> set (table w) \<longrightarrow> table (add w) = table w) \<and>
        (r \<notin> set (table w) \<longrightarrow> table (add w) = table w @ [r]) \<and>
        (r \<notin> set (table w) \<longrightarrow> table (del w) = table w) \<and>
        (r \<in> set (table w) \<longrightarrow> table (del w) = remove1 r (table w)) \<and>
        (count_list (table w) r \<le> 1 \<longrightarrow>
           count_list (table (add w)) r \<le> 1 \<and>
           count_list (table (del w)) r \<le> 1 \<and>
           count_list (table (add (add w))) r = 1 \<and>
           count_list (table (del (del w))) r = 0 \<and>
           table (del (del (add w))) = table (del (add w)))"
    using AddMarkRule_ok(1) [OF assms] DeleteMarkRule_ok(1) [OF assms] twice_add twice_del third
    by (simp add: add_t del_t zero count_remove1)
  then show ?thesis
    unfolding Let_def r_def add_def del_def .
qed

theorem mark_rule_idempotent_witness:
  "valid_pair env_ok ''10.200.1.5'' ''0x10'' \<and>
   tool_ok env_ok (mark_rulespec ''10.200.1.5'' ''0x10'') \<and>
   count_list (table world0) (mark_rulespec ''10.200.1.5'' ''0x10'') \<le> 1 \<and>
   table (fst (AddMarkRule env_ok world0 ''10.200.1.5'' ''0x10''))
     = [mark_rulespec ''10.200.1.5'' ''0x10''] \<and>
   count_list
     (table (fst (AddMarkRule env_ok (fst (AddMarkRule env_ok world0 ''10.200.1.5'' ''0x10''))
                    ''10.200.1.5'' ''0x10'')))
     (mark_rulespec ''10.200.1.5'' ''0x10'') = 1 \<and>
   count_list
     (table (fst (DeleteMarkRule env_ok (fst (DeleteMarkRule env_ok world0 ''10.200.1.5'' ''0x10''))
                    ''10.200.1.5'' ''0x10'')))
     (mark_rulespec ''10.200.1.5'' ''0x10'') = 0"
proof -
  have v: "valid_pair env_ok ''10.200.1.5'' ''0x10''"
    by code_simp
  have t: "tool_ok env_ok (mark_rulespec ''10.200.1.5'' ''0x10'')"
    by (simp add: tool_ok_def env_ok_def)
  have c: "count_list (table world0) (mark_rulespec ''10.200.1.5'' ''0x10'') \<le> 1"
    by (simp add: world0_def)
  have n: "mark_rulespec ''10.200.1.5'' ''0x10'' \<notin> set (table world0)"
    by (simp add: world0_def)
  show ?thesis
    using mark_rule_idempotent [OF v t, of world0] v t c n
    by (simp add: Let_def world0_def)
qed

section \<open>Mark-Rule Manager: validation before the rule tool\<close>

lemma validate_reject:
  "ToLower (TrimSpace fwmark) \<notin> {''0x10'', ''0x20''} \<Longrightarrow>
   iptables_validateFwmark fwmark = Some (InvalidFwmark fwmark)"
  by (simp add: iptables_validateFwmark_def FwmarkTenantA_def FwmarkTenantB_def Let_def)

text \<open>
  C8, as stated, fails: the tag \<open>0X10\<close> is not one of \<open>0x10\<close>, \<open>0x20\<close>, yet with the address
  10.200.1.5 \<open>AddMarkRule\<close> accepts it, runs the rule tool and appends the rule, and
  \<open>RuleExists\<close> queries the tool without an error.
\<close>

theorem AddMarkRule_accepts_0X10:
  "''0X10'' \<notin> {''0x10'', ''0x20''} \<and>
   AddMarkRule env_ok world0 ''10.200.1.5'' ''0X10''
     = (\<lparr>table = [[''-s'', ''10.200.1.5'', ''-j'', ''MARK'', ''--set-mark'', ''0X10'']],
         trace = [EvIptNew,
                  EvIptExists ''mangle'' ''PREROUTING''
                    [''-s'', ''10.200.1.5'', ''-j'', ''MARK'', ''--set-mark'', ''0X10''],
                  EvIptAppend ''mangle'' ''PREROUTING''
                    [''-s'', ''10.200.1.5'', ''-j'', ''MARK'', ''--set-mark'', ''0X10'']]\<rparr>,
        None) \<and>
   snd (snd (RuleExists env_ok world0 ''10.200.1.5'' ''0X10'')) = None"
  by code_simp

text \<open>
  C8, amended. For every tag whose trimmed, lower-cased form is not \<open>0x10\<close> or \<open>0x20\<close>, and
  for every address that is blank or that \<^verbatim>\<open>net.ParseIP\<close> rejects, \<open>AddMarkRule\<close>,
  \<open>DeleteMarkRule\<close> and \<open>RuleExists\<close> return an error and leave the host as it was: no
  call of the rule tool is recorded and the chain is unchanged.
\<close>

theorem mark_rule_validation_rejects:
  assumes "ToLower (TrimSpace fwmark) \<notin> {''0x10'', ''0x20''} \<or> TrimSpace podIP = [] \<or>
           net_ParseIP env podIP = None"
  shows "(\<exists>err. AddMarkRule env w podIP fwmark = (w, Some err)) \<and>
         (\<exists>err. DeleteMarkRule env w podIP fwmark = (w, Some err)) \<and>
         (\<exists>err. RuleExists env w podIP fwmark = (w, False, Some err))"
  using assms
  by (auto simp: AddMarkRule_def DeleteMarkRule_def RuleExists_def validate_reject)

theorem mark_rule_validation_rejects_witness:
  "ToLower (TrimSpace ''0x99'') \<notin> {''0x10'', ''0x20''} \<and>
   AddMarkRule env_ok world0 ''10.200.1.5'' ''0x99'' = (world0, Some (InvalidFwmark ''0x99'')) \<and>
   net_ParseIP env_ok ''10.0.0.1; rm -rf /'' = None \<and>
   (\<exists>err. DeleteMarkRule env_ok world0 ''10.0.0.1; rm -rf /'' ''0x10'' = (world0, Some err)) \<and>
   (\<exists>err. RuleExists env_ok world0 [] ''0x10'' = (world0, False, Some err))"
proof -
  have h1: "ToLower (TrimSpace ''0x99'') \<notin> {''0x10'', ''0x20''}"
    by code_simp
  have h2: "net_ParseIP env_ok ''10.0.0.1; rm -rf /'' = None"
    by (simp add: env_ok_def)
  have h3: "TrimSpace [] = []"
    by code_simp
  have a: "AddMarkRule env_ok world0 ''10.200.1.5'' ''0x99'' = (world0, Some (InvalidFwmark ''0x99''))"
    by code_simp
  show ?thesis
    using h1 h2 a
      mark_rule_validation_rejects [of "''0x99''" "''10.200.1.5''" env_ok world0]
      mark_rule_validation_rejects [of "''0x10''" "''10.0.0.1; rm -rf /''" env_ok world0]
      mark_rule_validation_rejects [of "''0x10''" "[]" env_ok world0] h3
    by simp
qed

text \<open>
  In particular a string with a shell metacharacter (a blank, \<open>;\<close>, \<open>&\<close>, \<open>|\<close>, \<open>$\<close>, a quote:
  any character that is not a hexadecimal digit, a dot or a colon) never reaches the
  rule tool, \<^verbatim>\<open>net.ParseIP\<close> accepting none of them.
\<close>

lemma shell_metacharacters_rejected:
  assumes "ParseIP_charset env" and "\<not> list_all ip_char podIP"
  shows "(\<exists>err. AddMarkRule env w podIP fwmark = (w, Some err)) \<and>
         (\<exists>err. DeleteMarkRule env w podIP fwmark = (w, Some err)) \<and>
         (\<exists>err. RuleExists env w podIP fwmark = (w, False, Some err))"
proof -
  have "net_ParseIP env podIP = None"
    using assms unfolding ParseIP_charset_def by blast
  then show ?thesis
    by (simp add: AddMarkRule_def DeleteMarkRule_def RuleExists_def)
qed

lemma shell_metacharacters_example:
  "\<not> list_all ip_char ''10.0.0.1; rm -rf /'' \<and> \<not> list_all ip_char ''10.0.0.1 && curl evil.com''"
  by code_simp

section \<open>Annotation Resolver: pod first, namespace second\<close>

lemma k8s_validateFwmark_iff:
  "k8s_validateFwmark v = (if v \<in> {''0x10'', ''0x20''} then None else Some (FwmarkNotAllowed v))"
  by (simp add: k8s_validateFwmark_def ValidFwmarkValues_def)

text \<open>
  C9. When the pod object carries the tag key, \<open>GetFwmark\<close> returns its value if it is
  one of \<open>0x10\<close>, \<open>0x20\<close> and an invalid-value error otherwise. When the pod lacks the key
  and the namespace object carries it, the namespace's value is returned under the same
  validation. When neither carries the key the result is the empty tag and no error.
  A pod or namespace object that is not found gives an error of its own, not the empty
  tag.
\<close>

theorem GetFwmark_resolution:
  "(Pods_Get cs ns name = Inr pa \<and> pa key = Some v \<longrightarrow>
      snd (GetFwmark cs w name ns key)
        = (if v \<in> {''0x10'', ''0x20''} then Inr v
           else Inl (InvalidPodFwmark (FwmarkNotAllowed v)))) \<and>
   (Pods_Get cs ns name = Inr pa \<and> pa key = None \<and>
    Namespaces_Get cs ns = Inr na \<and> na key = Some v \<longrightarrow>
      snd (GetFwmark cs w name ns key)
        = (if v \<in> {''0x10'', ''0x20''} then Inr v
           else Inl (InvalidNamespaceFwmark (FwmarkNotAllowed v)))) \<and>
   (Pods_Get cs ns name = Inr pa \<and> pa key = None \<and>
    Namespaces_Get cs ns = Inr na \<and> na key = None \<longrightarrow>
      snd (GetFwmark cs w name ns key) = Inr []) \<and>
   (Pods_Get cs ns name = Inl e \<and> IsNotFound e \<longrightarrow>
      snd (GetFwmark cs w name ns key) = Inl (PodNotFound ns name e)) \<and>
   (Pods_Get cs ns name = Inr pa \<and> pa key = None \<and>
    Namespaces_Get cs ns = Inl e \<and> IsNotFound e \<longrightarrow>
      snd (GetFwmark cs w name ns key) = Inl (NamespaceNotFound ns e))"
  by (simp add: GetFwmark_def Let_def k8s_validateFwmark_iff)

theorem GetFwmark_resolution_witness:
  "snd (GetFwmark cs_ok world0 ''web'' ''production'' DefaultAnnotationKey) = Inr ''0x10'' \<and>
   snd (GetFwmark cs_ok world0 ''web'' ''dev'' DefaultAnnotationKey)
     = Inl (InvalidPodFwmark (FwmarkNotAllowed ''0x99'')) \<and>
   snd (GetFwmark cs_ok world0 ''web'' ''staging'' DefaultAnnotationKey) = Inr ''0x20'' \<and>
   snd (GetFwmark cs_ok world0 ''api'' ''production'' DefaultAnnotationKey) = Inr [] \<and>
   snd (GetFwmark cs_ok world0 ''web'' ''lost'' DefaultAnnotationKey)
     = Inl (PodNotFound ''lost'' ''web'' (ApiNotFound ''pods'')) \<and>
   snd (GetFwmark cs_ok world0 ''web'' ''gone'' DefaultAnnotationKey)
     = Inl (NamespaceNotFound ''gone'' (ApiNotFound ''namespaces''))"
proof -
  have nf: "IsNotFound (ApiNotFound s)" for s
    by (simp add: IsNotFound_def)
  have 1: "snd (GetFwmark cs_ok world0 ''web'' ''production'' DefaultAnnotationKey) = Inr ''0x10''"
    using GetFwmark_resolution
            [where cs = cs_ok and ns = "''production''" and name = "''web''"
               and pa = "[DefaultAnnotationKey \<mapsto> ''0x10'']" and key = DefaultAnnotationKey
               and v = "''0x10''" and w = world0]
    by (simp add: cs_ok_def)
  have 2: "snd (GetFwmark cs_ok world0 ''web'' ''dev'' DefaultAnnotationKey)
             = Inl (InvalidPodFwmark (FwmarkNotAllowed ''0x99''))"
    using GetFwmark_resolution
            [where cs = cs_ok and ns = "''dev''" and name = "''web''"
               and pa = "[DefaultAnnotationKey \<mapsto> ''0x99'']" and key = DefaultAnnotationKey
               and v = "''0x99''" and w = world0]
    by (simp add: cs_ok_def)
  have 3: "snd (GetFwmark cs_ok world0 ''web'' ''staging'' DefaultAnnotationKey) = Inr ''0x20''"
    using GetFwmark_resolution
            [where cs = cs_ok and ns = "''staging''" and name = "''web''" and pa = Map.empty
               and na = "[DefaultAnnotationKey \<mapsto> ''0x20'']" and key = DefaultAnnotationKey
               and v = "''0x20''" and w = world0]
    by (simp add: cs_ok_def)
  have 4: "snd (GetFwmark cs_ok world0 ''api'' ''production'' DefaultAnnotationKey) = Inr []"
    using GetFwmark_resolution
            [where cs = cs_ok and ns = "''production''" and name = "''api''" and pa = Map.empty
               and na = Map.empty and key = DefaultAnnotationKey and w = world0]
    by (simp add: cs_ok_def)
  have 5: "snd (GetFwmark cs_ok world0 ''web'' ''lost'' DefaultAnnotationKey)
             = Inl (PodNotFound ''lost'' ''web'' (ApiNotFound ''pods''))"
    using GetFwmark_resolution
            [where cs = cs_ok and ns = "''lost''" and name = "''web''"
               and e = "ApiNotFound ''pods''" and key = DefaultAnnotationKey and w = world0]
    by (simp add: cs_ok_def nf)
  have 6: "snd (GetFwmark cs_ok world0 ''web'' ''gone'' DefaultAnnotationKey)
             = Inl (NamespaceNotFound ''gone'' (ApiNotFound ''namespaces''))"
    using GetFwmark_resolution
            [where cs = cs_ok and ns = "''gone''" and name = "''web''" and pa = Map.empty
               and e = "ApiNotFound ''namespaces''" and key = DefaultAnnotationKey and w = world0]
    by (simp add: cs_ok_def nf)
  show ?thesis
    using 1 2 3 4 5 6 by simp
qed

section \<open>Result Extractor: the first IPv4 address\<close>

lemma scanIPs_all_skipped:
  "list_all skipped_entry ips \<Longrightarrow> scanIPs ips = Return (Inl NoIPv4Addresses)"
  by (induction ips rule: scanIPs.induct)
     (auto simp: skipped_entry_def IsIPv4_def split: option.splits)

lemma scanIPs_first_IPv4:
  "list_all skipped_entry pre \<Longrightarrow> IP (Address c) = Some ip \<Longrightarrow> To4 ip = Some p4 \<Longrightarrow>
   scanIPs (pre @ Some c # post) = Return (Inr (ipv4_String p4))"
  by (induction pre rule: scanIPs.induct)
     (auto simp: skipped_entry_def IsIPv4_def split: option.splits)

lemma ipv4_String_example: "ipv4_String [10, 200, 1, 5] = ''10.200.1.5''"
  by code_simp

text \<open>
  C10. \<open>ExtractPodIP\<close> fails on the nil result and, with its own error, on a result of
  neither known shape. On both known shapes: an empty address list gives the
  no-IP-addresses error; a non-empty list of entries that are all passed over (nil IP or
  not IPv4) gives the distinct no-IPv4-addresses error; and when the entries before some
  entry are all passed over and that entry holds an IPv4 address, the result is that
  address in dotted decimal, whatever follows it. The four errors are pairwise distinct.
  (Entries are decoded records; a nil pointer among the scanned entries makes the Go
  code panic, see \<open>scanIPs\<close>.)
\<close>

theorem ExtractPodIP_contract:
  "ExtractPodIP None = Return (Inl ResultNil) \<and>
   ExtractPodIP (Some (ResultOther ty)) = Return (Inl (UnsupportedResultType ty)) \<and>
   (\<forall>r \<in> {Result100 v ips, Result040 v ips}.
      (ips = [] \<longrightarrow> ExtractPodIP (Some r) = Return (Inl NoIPAddresses)) \<and>
      (ips \<noteq> [] \<and> list_all skipped_entry ips \<longrightarrow>
         ExtractPodIP (Some r) = Return (Inl NoIPv4Addresses)) \<and>
      (\<forall>pre c post ip p4.
         ips = pre @ Some c # post \<and> list_all skipped_entry pre \<and>
         IP (Address c) = Some ip \<and> To4 ip = Some p4 \<longrightarrow>
         ExtractPodIP (Some r) = Return (Inr (ipv4_String p4)))) \<and>
   distinct [ResultNil, UnsupportedResultType ty, NoIPAddresses, NoIPv4Addresses]"
  by (auto simp: extractIPv4FromResult100_def extractIPv4FromResult040_def
                 scanIPs_all_skipped scanIPs_first_IPv4)

theorem ExtractPodIP_contract_witness:
  "ExtractPodIP (Some (Result040 ''0.4.0'' [])) = Return (Inl NoIPAddresses) \<and>
   ExtractPodIP (Some (Result100 ''1.0.0'' [Some ipconf_nil, Some ipconf_v6]))
     = Return (Inl NoIPv4Addresses) \<and>
   ExtractPodIP (Some (Result100 ''1.0.0'' [Some ipconf_nil, Some ipconf_v6, Some ipconf_v4, None]))
     = Return (Inr ''10.200.1.5'')"
proof -
  have v6: "To4 [0x20, 0x01, 0x0d, 0xb8, 0, 0, 0, 0, 0, 0, 0, 0, 0, 0, 0, 1] = None"
    by (simp add: To4_def)
  have sk: "list_all skipped_entry [Some ipconf_nil, Some ipconf_v6]"
    by (simp add: skipped_entry_def IsIPv4_def ipconf_nil_def ipconf_v6_def v6)
  have a: "ExtractPodIP (Some (Result040 ''0.4.0'' [])) = Return (Inl NoIPAddresses)"
    using ExtractPodIP_contract [of "''t''" "''0.4.0''" "[]"] by simp
  have b: "ExtractPodIP (Some (Result100 ''1.0.0'' [Some ipconf_nil, Some ipconf_v6]))
             = Return (Inl NoIPv4Addresses)"
    using ExtractPodIP_contract [of "''t''" "''1.0.0''" "[Some ipconf_nil, Some ipconf_v6]"] sk
    by simp
  have "To4 [10, 200, 1, 5] = Some [10, 200, 1, 5]"
    by (simp add: To4_def)
  then have c: "ExtractPodIP
                  (Some (Result100 ''1.0.0'' [Some ipconf_nil, Some ipconf_v6, Some ipconf_v4, None]))
                = Return (Inr (ipv4_String [10, 200, 1, 5]))"
    using ExtractPodIP_contract
            [of "''t''" "''1.0.0''" "[Some ipconf_nil, Some ipconf_v6, Some ipconf_v4, None]"] sk
    apply simp
    apply (elim conjE)
    apply (drule spec [of _ "[Some ipconf_nil, Some ipconf_v6]"])
    apply (drule spec [of _ "ipconf_v4"])
    apply (simp add: ipconf_v4_def)
    done
  show ?thesis using a b c by (simp add: ipv4_String_example)
qed

end
